theory Spec2Isabelle
  imports Complex_Main "HOL-Library.Sublist"
begin

section \<open>The Sonnendach API investigator (investigate\_sonnendach\_api.py)\<close>

text \<open>
  The script sends a fixed sequence of HTTP GET requests and prints what came back.
  The model makes its two effects explicit: the list of requests sent through the
  session, and the lines printed on the console. The remote servers are a parameter:
  a function that, given the requests sent so far and the next request, either raises
  an exception in \<open>session.get\<close> or answers with a response.
\<close>

subsection \<open>Python values and exceptions\<close>

text \<open>
  What \<open>response.json()\<close> returns: \<open>None\<close>, a bool, an int, a float, a str, a list
  or a dict. A dict is an association list in insertion order (the decoder keeps one
  entry per key). A float inside a decoded body is kept as the real number it stands
  for: the script does no arithmetic on decoded values, it only tests and prints them
  (the non-standard tokens \<open>NaN\<close> and \<open>Infinity\<close> are outside the model).
\<close>

datatype pyval =
    PyNone
  | PyBool bool
  | PyInt int
  | PyFloat real
  | PyStr string
  | PyList "pyval list"
  | PyDict "(string \<times> pyval) list"

text \<open>
  The exceptions the modelled code can meet. All of them are subclasses of Python's
  \<open>Exception\<close>, which is what the \<open>except Exception\<close> clauses of the script catch.
\<close>

datatype exn =
    AttributeError
  | TypeError
  | KeyError
  | IndexError
  | JSONDecodeError
  | ParseError
  | ConnectionError
  | Timeout
  | RequestException string

text \<open>\<open>d.get(key, default)\<close>: only a dict has the method.\<close>

fun py_get :: "pyval \<Rightarrow> string \<Rightarrow> pyval \<Rightarrow> exn + pyval" where
  "py_get (PyDict kvs) key dflt = Inr (case map_of kvs key of Some v \<Rightarrow> v | None \<Rightarrow> dflt)"
| "py_get _ key dflt = Inl AttributeError"

text \<open>\<open>len(v)\<close>: defined on str, list and dict.\<close>

fun py_len :: "pyval \<Rightarrow> exn + nat" where
  "py_len (PyStr s) = Inr (length s)"
| "py_len (PyList xs) = Inr (length xs)"
| "py_len (PyDict kvs) = Inr (length kvs)"
| "py_len _ = Inl TypeError"

text \<open>
  The elements a \<open>for\<close> loop visits: the items of a list, the characters of a str,
  the keys of a dict; anything else is not iterable.
\<close>

fun py_iter :: "pyval \<Rightarrow> exn + pyval list" where
  "py_iter (PyList xs) = Inr xs"
| "py_iter (PyStr s) = Inr (map (\<lambda>c. PyStr [c]) s)"
| "py_iter (PyDict kvs) = Inr (map (\<lambda>kv. PyStr (fst kv)) kvs)"
| "py_iter _ = Inl TypeError"

text \<open>Truth value of an object, as \<open>if v:\<close> tests it.\<close>

fun truthy :: "pyval \<Rightarrow> bool" where
  "truthy PyNone = False"
| "truthy (PyBool b) = b"
| "truthy (PyInt n) = (n \<noteq> 0)"
| "truthy (PyFloat x) = (x \<noteq> 0)"
| "truthy (PyStr s) = (s \<noteq> [])"
| "truthy (PyList xs) = (xs \<noteq> [])"
| "truthy (PyDict kvs) = (kvs \<noteq> [])"

text \<open>
  \<open>v[0]\<close>: the first item of a list or the first character of a str (IndexError when
  empty); on a dict the key \<open>0\<close> is looked up, and a decoded JSON object has only str
  keys; other objects are not subscriptable.
\<close>

fun py_index0 :: "pyval \<Rightarrow> exn + pyval" where
  "py_index0 (PyList []) = Inl IndexError"
| "py_index0 (PyList (x # xs)) = Inr x"
| "py_index0 (PyStr []) = Inl IndexError"
| "py_index0 (PyStr (c # cs)) = Inr (PyStr [c])"
| "py_index0 (PyDict kvs) = Inl KeyError"
| "py_index0 _ = Inl TypeError"

text \<open>\<open>d.items()\<close> and \<open>d.keys()\<close>: only a dict has them.\<close>

fun py_items :: "pyval \<Rightarrow> exn + (string \<times> pyval) list" where
  "py_items (PyDict kvs) = Inr kvs"
| "py_items _ = Inl AttributeError"

fun py_keys :: "pyval \<Rightarrow> exn + string list" where
  "py_keys (PyDict kvs) = Inr (map fst kvs)"
| "py_keys _ = Inl AttributeError"

subsection \<open>Python floats\<close>

text \<open>
  The coordinates are Python floats, that is IEEE-754 binary64 values, and the script
  does arithmetic on them. \<open>Finite r\<close> is the finite float whose exact value is the
  rational \<open>r\<close> (\<open>Finite 0\<close> is \<open>0.0\<close>), \<open>NegZero\<close> is \<open>-0.0\<close>, \<open>PosInf\<close> and
  \<open>NegInf\<close> are the infinities and \<open>NaN\<close> is not-a-number.
\<close>

datatype pyfloat = Finite rat | NegZero | PosInf | NegInf | NaN

text \<open>The number of binary digits of a positive integer.\<close>

function bits :: "int \<Rightarrow> nat" where
  "bits n = (if n \<le> 0 then 0 else Suc (bits (n div 2)))"
  by pat_completeness auto
termination
  by (relation "measure nat") auto

declare bits.simps [simp del]

text \<open>\<open>2\<close> to an integer power, as a rational.\<close>

definition pow2 :: "int \<Rightarrow> rat" where
  "pow2 k = (if 0 \<le> k then 2 ^ nat k else 1 / 2 ^ nat (- k))"

text \<open>
  The binary exponent of a positive rational \<open>a\<close>: the integer \<open>e\<close> with
  \<open>2^e \<le> a < 2^(e+1)\<close>. For \<open>a = p / q\<close> it is the difference of the numbers of digits
  of \<open>p\<close> and \<open>q\<close>, or one less.
\<close>

definition ilog2 :: "rat \<Rightarrow> int" where
  "ilog2 a =
     (let p = fst (quotient_of a); q = snd (quotient_of a);
          e0 = int (bits p) - int (bits q)
      in if pow2 e0 \<le> a then e0 else e0 - 1)"

text \<open>Rounding to the nearest integer, a tie to the even one.\<close>

definition round_half_even :: "rat \<Rightarrow> int" where
  "round_half_even y =
     (let f = \<lfloor>y\<rfloor>; d = y - of_int f
      in if d < 1 / 2 then f
         else if 1 / 2 < d then f + 1
         else if even f then f else f + 1)"

text \<open>
  The float nearest to an exact value, ties to even (the rounding of every binary64
  operation and of reading a decimal literal). Values are multiples of \<open>2^(e-52)\<close>,
  where \<open>e\<close> is the binary exponent and at least \<open>-1022\<close> (below that the values are
  subnormal); a value that rounds to nothing is a zero with its sign; a rounded value
  of \<open>2^1024\<close> or more, that is of binary exponent \<open>1024\<close> or more, is an infinity.
\<close>

definition round_double :: "rat \<Rightarrow> pyfloat" where
  "round_double x =
     (if x = 0 then Finite 0
      else
        (let a = \<bar>x\<bar>;
             e = max (ilog2 a) (- 1022);
             q = pow2 (e - 52);
             n = round_half_even (a / q);
             r = of_int n * q
         in if n = 0 then (if 0 < x then Finite 0 else NegZero)
            else if 1024 \<le> ilog2 r then (if 0 < x then PosInf else NegInf)
            else Finite (if 0 < x then r else - r)))"

text \<open>The float that a decimal literal of the source denotes, such as \<open>605075.4\<close>.\<close>

definition float_literal :: "rat \<Rightarrow> pyfloat" where
  "float_literal r = round_double r"

text \<open>\<open>-x\<close>, \<open>x + y\<close> and \<open>x - y\<close> on floats. The sum of two finite floats is the
  exact sum, rounded; an exact sum of zero is \<open>0.0\<close>.\<close>

fun float_neg :: "pyfloat \<Rightarrow> pyfloat" where
  "float_neg NaN = NaN"
| "float_neg PosInf = NegInf"
| "float_neg NegInf = PosInf"
| "float_neg NegZero = Finite 0"
| "float_neg (Finite r) = (if r = 0 then NegZero else Finite (- r))"

fun float_add :: "pyfloat \<Rightarrow> pyfloat \<Rightarrow> pyfloat" where
  "float_add NaN y = NaN"
| "float_add x NaN = NaN"
| "float_add PosInf NegInf = NaN"
| "float_add NegInf PosInf = NaN"
| "float_add PosInf y = PosInf"
| "float_add x PosInf = PosInf"
| "float_add NegInf y = NegInf"
| "float_add x NegInf = NegInf"
| "float_add NegZero NegZero = NegZero"
| "float_add NegZero (Finite b) = Finite b"
| "float_add (Finite a) NegZero = Finite a"
| "float_add (Finite a) (Finite b) = round_double (a + b)"

definition float_sub :: "pyfloat \<Rightarrow> pyfloat \<Rightarrow> pyfloat" where
  "float_sub x y = float_add x (float_neg y)"

text \<open>\<open>coords[i]\<close> for \<open>i = 0, 1\<close> on a list of floats.\<close>

definition coord :: "pyfloat list \<Rightarrow> nat \<Rightarrow> exn + pyfloat" where
  "coord coords i = (if i < length coords then Inr (coords ! i) else Inl IndexError)"

subsection \<open>Keyword matching\<close>

text \<open>
  \<open>s.lower()\<close> on the 8-bit characters of the model: the letters A to Z become a to z,
  every other character stays. (Python also lowers letters beyond ASCII; the result
  is then again beyond ASCII, and the keywords are ASCII.)
\<close>

definition lower_char :: "char \<Rightarrow> char" where
  "lower_char c =
     (if (65::nat) \<le> of_char c \<and> of_char c \<le> (90::nat)
      then char_of (of_char c + (32::nat)) else c)"

definition lower :: "string \<Rightarrow> string" where
  "lower s = map lower_char s"

definition solar_keywords :: "string list" where
  "solar_keywords = [''solar'', ''sonnendach'', ''bfe'', ''energie'']"

text \<open>
  \<open>any(keyword in low for keyword in ['solar', 'sonnendach', 'bfe', 'energie'])\<close>,
  where \<open>low\<close> is the lower-cased string; \<open>in\<close> on strings is the contiguous substring
  test.
\<close>

definition any_keyword_in :: "string \<Rightarrow> bool" where
  "any_keyword_in low = list_ex (\<lambda>keyword. sublist keyword low) solar_keywords"

subsection \<open>Requests, responses and the XML tree\<close>

text \<open>
  A query parameter value. The script formats them with f-strings:
  \<open>PText s\<close> is the string \<open>s\<close>; \<open>PPoint a b\<close> is \<open>f"{a},{b}"\<close>;
  \<open>PBox a b c d\<close> is \<open>f"{a},{b},{c},{d}"\<close>.
\<close>

datatype pval =
    PText string
  | PPoint pyfloat pyfloat
  | PBox pyfloat pyfloat pyfloat pyfloat

record request =
  url :: string
  params :: "(string \<times> pval) list"
  timeout :: nat

text \<open>An element of the tree that \<open>ET.fromstring\<close> builds.\<close>

datatype xml = Element (tag: string) (elem_text: "string option") (children: "xml list")

text \<open>
  A response, as far as the script reads it: \<open>status_code\<close>; \<open>json_body\<close> is what
  \<open>response.json()\<close> does (raise or return the decoded value); \<open>text_body\<close> is
  \<open>response.text\<close>; \<open>xml_body\<close> is what \<open>ET.fromstring(response.content)\<close> does;
  \<open>content_type\<close> is \<open>response.headers.get('content-type')\<close>.
\<close>

record response =
  status_code :: int
  json_body :: "exn + pyval"
  text_body :: string
  xml_body :: "exn + xml"
  content_type :: "string option"

type_synonym server = "request list \<Rightarrow> request \<Rightarrow> exn + response"

subsection \<open>Console lines\<close>

text \<open>The entries that \<open>investigate_geoadmin_layers\<close> returns: dicts with the keys
  \<open>'id'\<close>, \<open>'name'\<close> and \<open>'type'\<close>.\<close>

record solar_layer =
  layer_id :: string
  layer_name :: pyval
  layer_type :: pyval

text \<open>The entries that \<open>investigate_wms_layers\<close> returns: dicts with the keys
  \<open>'name'\<close> and \<open>'title'\<close> (the title is \<open>None\<close> when the element has no text).\<close>

record wms_layer =
  wms_name :: string
  wms_title :: "string option"

text \<open>
  One constructor for each \<open>print\<close> of the script, with the values its f-string
  interpolates, grouped by the method that prints it. The text of each line is in the
  comment (emoji prefixes left out).
\<close>

datatype geoadmin_line =
    Investigating_layers              \<comment> \<open>Investigating GeoAdmin API layers...\<close>
  | Api_accessible nat                \<comment> \<open>GeoAdmin API accessible. Found n layers\<close>
  | Found_solar nat                   \<comment> \<open>Found n potential solar-related layers:\<close>
  | Solar_layer_line solar_layer      \<comment> \<open>id - name (type)\<close>
  | Api_failed int                    \<comment> \<open>GeoAdmin API failed: status\<close>
  | Error_investigating exn           \<comment> \<open>Error investigating layers: e\<close>

datatype capabilities_line =
    Layer_info_accessible             \<comment> \<open>Layer info accessible\<close>
  | Description pyval                 \<comment> \<open>Description: v\<close>
  | Type_line pyval                   \<comment> \<open>Type: v\<close>
  | Geometry_type pyval               \<comment> \<open>Geometry Type: v\<close>
  | Layer_info_failed int             \<comment> \<open>Layer info failed: status\<close>
  | Error_testing_layer exn           \<comment> \<open>Error testing layer: e\<close>

datatype identify_line =
    Testing_identify "pyfloat list"      \<comment> \<open>Testing identify at coordinates coords\<close>
  | Identify_successful nat           \<comment> \<open>Identify successful: n results\<close>
  | Sample_attributes                 \<comment> \<open>Sample result attributes:\<close>
  | Attribute_line string pyval       \<comment> \<open>key: value\<close>
  | More_attributes nat               \<comment> \<open>... and n more attributes\<close>
  | No_data_found                     \<comment> \<open>No data found at test coordinates\<close>
  | Identify_failed int               \<comment> \<open>Identify failed: status\<close>
  | Response_text string              \<comment> \<open>Response: text...\<close>
  | Identify_error exn                \<comment> \<open>Identify error: e\<close>

datatype wms_line =
    Investigating_wms                 \<comment> \<open>Investigating WMS capabilities...\<close>
  | Wms_parsed nat                    \<comment> \<open>WMS capabilities parsed. Found n solar-related layers:\<close>
  | Wms_layer_line wms_layer          \<comment> \<open>name - title\<close>
  | Wms_failed int                    \<comment> \<open>WMS GetCapabilities failed: status\<close>
  | Wms_error exn                     \<comment> \<open>WMS investigation error: e\<close>

datatype endpoint_line =
    Testing_alternatives              \<comment> \<open>Testing alternative API endpoints...\<close>
  | Testing_endpoint string           \<comment> \<open>Testing: endpoint\<close>
  | Status_line int                   \<comment> \<open>Status: status\<close>
  | Json_response pyval               \<comment> \<open>JSON response with len(str(data)) characters\<close>
  | Response_length nat               \<comment> \<open>Response length: n characters\<close>
  | Content_type_line string          \<comment> \<open>Content-Type: s\<close>
  | Endpoint_error exn                \<comment> \<open>Error: e\<close>

datatype simple_line =
    Testing_variations                \<comment> \<open>Testing known solar layer variations...\<close>
  | Simple_success nat                \<comment> \<open>SUCCESS! Found n results\<close>
  | Attributes_keys "string list"     \<comment> \<open>Attributes: keys\<close>
  | Layer_no_data                     \<comment> \<open>Layer exists but no data at coordinates\<close>
  | Http_status int                   \<comment> \<open>HTTP status\<close>
  | Simple_error exn                  \<comment> \<open>Error: str(e)[:100]...\<close>

datatype banner_line =
    Banner_title                      \<comment> \<open>COMPREHENSIVE SONNENDACH API INVESTIGATION\<close>
  | Rule60                            \<comment> \<open>sixty equals signs\<close>
  | Rule60_after_blank                \<comment> \<open>an empty line, then sixty equals signs\<close>
  | Investigation_complete            \<comment> \<open>INVESTIGATION COMPLETE\<close>

text \<open>\<open>Testing layer: layer\<close> is printed by \<open>test_layer_capabilities\<close> and, with the
  same text, by \<open>search_for_correct_layer_name\<close>.\<close>

datatype line =
    Testing_layer string
  | Geoadmin geoadmin_line
  | Capabilities capabilities_line
  | Identify identify_line
  | Wms wms_line
  | Endpoint endpoint_line
  | Simple simple_line
  | Banner banner_line

subsection \<open>Statements with effects\<close>

record st =
  sent :: "request list"
  console :: "line list"

text \<open>A statement runs from a state and either raises (\<open>Inl\<close>) or yields a value.\<close>

type_synonym 'a prog = "st \<Rightarrow> (exn + 'a) \<times> st"

definition return :: "'a \<Rightarrow> 'a prog" where
  "return v s = (Inr v, s)"

definition bind :: "'a prog \<Rightarrow> ('a \<Rightarrow> 'b prog) \<Rightarrow> 'b prog" where
  "bind m k s = (case m s of (Inl e, s') \<Rightarrow> (Inl e, s') | (Inr v, s') \<Rightarrow> k v s')"

text \<open>A pure expression that may raise.\<close>

definition compute :: "exn + 'a \<Rightarrow> 'a prog" where
  "compute r s = (r, s)"

definition print :: "line \<Rightarrow> unit prog" where
  "print l s = (Inr (), s\<lparr>console := console s @ [l]\<rparr>)"

text \<open>\<open>self.session.get(url, params=params, timeout=t)\<close>\<close>

definition session_get :: "server \<Rightarrow> request \<Rightarrow> response prog" where
  "session_get srv req s = (srv (sent s) req, s\<lparr>sent := sent s @ [req]\<rparr>)"

text \<open>\<open>try: body  except Exception as e: handler e\<close>\<close>

definition try_except :: "'a prog \<Rightarrow> (exn \<Rightarrow> 'a prog) \<Rightarrow> 'a prog" where
  "try_except body handler s =
     (case body s of (Inl e, s') \<Rightarrow> handler e s' | (Inr v, s') \<Rightarrow> (Inr v, s'))"

text \<open>\<open>for x in xs: body x\<close>\<close>

fun for_each :: "'a list \<Rightarrow> ('a \<Rightarrow> 'b prog) \<Rightarrow> unit prog" where
  "for_each [] body s = (Inr (), s)"
| "for_each (x # xs) body s =
     (case body x s of (Inl e, s') \<Rightarrow> (Inl e, s') | (Inr v, s') \<Rightarrow> for_each xs body s')"

subsection \<open>investigate\_geoadmin\_layers\<close>

definition MapServer :: string where
  "MapServer = ''https://api3.geo.admin.ch/rest/services/api/MapServer''"

definition layers_request :: request where
  "layers_request = \<lparr>url = MapServer, params = [], timeout = 15\<rparr>"

text \<open>
  The loop of lines 35 to 43 over the catalog entries; \<open>acc\<close> is \<open>solar_layers\<close>.
  \<open>layer_id.lower()\<close> exists only on a str.
\<close>

fun solar_layers_loop :: "pyval list \<Rightarrow> solar_layer list \<Rightarrow> exn + solar_layer list" where
  "solar_layers_loop [] acc = Inr acc"
| "solar_layers_loop (layer # rest) acc =
     (case py_get layer ''layerId'' (PyStr '''') of
        Inl e \<Rightarrow> Inl e
      | Inr lid \<Rightarrow>
     (case py_get layer ''name'' (PyStr '''') of
        Inl e \<Rightarrow> Inl e
      | Inr lname \<Rightarrow>
     (case lid of
        PyStr s \<Rightarrow>
          if any_keyword_in (lower s) then
            (case py_get layer ''type'' (PyStr ''unknown'') of
               Inl e \<Rightarrow> Inl e
             | Inr ltype \<Rightarrow>
                 solar_layers_loop rest
                   (acc @ [\<lparr>layer_id = s, layer_name = lname, layer_type = ltype\<rparr>]))
          else solar_layers_loop rest acc
      | _ \<Rightarrow> Inl AttributeError)))"

definition investigate_geoadmin_layers :: "server \<Rightarrow> solar_layer list prog" where
  "investigate_geoadmin_layers srv =
     bind (print (Geoadmin Investigating_layers)) (\<lambda>_.
     try_except
       (bind (session_get srv layers_request) (\<lambda>response.
        if status_code response = 200 then
          bind (compute (json_body response)) (\<lambda>data.
          bind (compute (py_get data ''layers'' (PyList []))) (\<lambda>ls.
          bind (compute (py_len ls)) (\<lambda>n.
          bind (print (Geoadmin (Api_accessible n))) (\<lambda>_.
          bind (compute (py_get data ''layers'' (PyList []))) (\<lambda>ls'.
          bind (compute (py_iter ls')) (\<lambda>entries.
          bind (compute (solar_layers_loop entries [])) (\<lambda>solar_layers.
          bind (print (Geoadmin (Found_solar (length solar_layers)))) (\<lambda>_.
          bind (for_each solar_layers (\<lambda>layer. print (Geoadmin (Solar_layer_line layer)))) (\<lambda>_.
          return solar_layers)))))))))
        else
          bind (print (Geoadmin (Api_failed (status_code response)))) (\<lambda>_.
          return [])))
       (\<lambda>e. bind (print (Geoadmin (Error_investigating e))) (\<lambda>_. return [])))"

subsection \<open>test\_layer\_identify\<close>

definition identify_url :: string where
  "identify_url = ''https://api3.geo.admin.ch/rest/services/api/MapServer/identify''"

text \<open>
  The \<open>params\<close> dict of lines 90 to 101, where \<open>c0\<close> and \<open>c1\<close> are the values of
  \<open>coords[0]\<close> and \<open>coords[1]\<close>. In \<open>coords[0]-500\<close> the int \<open>500\<close> becomes the
  float \<open>500.0\<close> and the difference is a float subtraction.
\<close>

definition identify_dict :: "string \<Rightarrow> pyfloat \<Rightarrow> pyfloat \<Rightarrow> (string \<times> pval) list" where
  "identify_dict lid c0 c1 =
     [(''geometry'', PPoint c0 c1),
      (''geometryType'', PText ''esriGeometryPoint''),
      (''layers'', PText (''all:'' @ lid)),
      (''mapExtent'',
         PBox (float_sub c0 (Finite 500)) (float_sub c1 (Finite 500))
              (float_add c0 (Finite 500)) (float_add c1 (Finite 500))),
      (''imageDisplay'', PText ''500,500,96''),
      (''tolerance'', PText ''100''),
      (''returnGeometry'', PText ''true''),
      (''geometryFormat'', PText ''geojson''),
      (''sr'', PText ''2056''),
      (''lang'', PText ''en'')]"

text \<open>Building the dict reads \<open>coords[0]\<close> and \<open>coords[1]\<close>, which raise IndexError on a
  list that is too short.\<close>

definition identify_params :: "string \<Rightarrow> pyfloat list \<Rightarrow> exn + (string \<times> pval) list" where
  "identify_params lid coords =
     (case coord coords 0 of
        Inl e \<Rightarrow> Inl e
      | Inr c0 \<Rightarrow>
     (case coord coords 1 of
        Inl e \<Rightarrow> Inl e
      | Inr c1 \<Rightarrow> Inr (identify_dict lid c0 c1)))"

text \<open>The request that line 103 sends for the coordinate pair \<open>(c0, c1)\<close>.\<close>

definition identify_request :: "string \<Rightarrow> pyfloat \<Rightarrow> pyfloat \<Rightarrow> request" where
  "identify_request lid c0 c1 =
     \<lparr>url = identify_url, params = identify_dict lid c0 c1, timeout = 15\<rparr>"

text \<open>The method has no \<open>return\<close> statement: it returns \<open>None\<close>.\<close>

definition test_layer_identify :: "server \<Rightarrow> string \<Rightarrow> pyfloat list \<Rightarrow> pyval prog" where
  "test_layer_identify srv lid coords =
     bind (print (Identify (Testing_identify coords))) (\<lambda>_.
     bind (try_except
       (bind (compute (identify_params lid coords)) (\<lambda>ps.
        bind (session_get srv \<lparr>url = identify_url, params = ps, timeout = 15\<rparr>) (\<lambda>response.
        if status_code response = 200 then
          bind (compute (json_body response)) (\<lambda>data.
          bind (compute (py_get data ''results'' (PyList []))) (\<lambda>results.
          bind (compute (py_len results)) (\<lambda>n.
          bind (print (Identify (Identify_successful n))) (\<lambda>_.
          if truthy results then
            bind (compute (py_index0 results)) (\<lambda>result.
            bind (compute (py_get result ''attributes'' (PyDict []))) (\<lambda>attrs.
            bind (print (Identify Sample_attributes)) (\<lambda>_.
            bind (compute (py_items attrs)) (\<lambda>items.
            bind (for_each (take 5 items) (\<lambda>kv. print (Identify (Attribute_line (fst kv) (snd kv))))) (\<lambda>_.
            bind (compute (py_len attrs)) (\<lambda>m.
            if m > 5 then print (Identify (More_attributes (m - 5))) else return ()))))))
          else print (Identify No_data_found)))))
        else
          bind (print (Identify (Identify_failed (status_code response)))) (\<lambda>_.
          if text_body response \<noteq> [] then print (Identify (Response_text (take 200 (text_body response))))
          else return ()))))
       (\<lambda>e. print (Identify (Identify_error e)))) (\<lambda>_.
     return PyNone))"

subsection \<open>test\_layer\_capabilities\<close>

text \<open>\<open>test_coords = [605075.4, 197225.3]\<close>, the same literal in both methods that use it.\<close>

definition test_coords :: "pyfloat list" where
  "test_coords = [float_literal (6050754 / 10), float_literal (1972253 / 10)]"

definition layer_info_request :: "string \<Rightarrow> request" where
  "layer_info_request lid =
     \<lparr>url = ''https://api3.geo.admin.ch/rest/services/api/MapServer/'' @ lid,
      params = [], timeout = 10\<rparr>"

definition test_layer_capabilities :: "server \<Rightarrow> string \<Rightarrow> pyval prog" where
  "test_layer_capabilities srv lid =
     bind (print (Testing_layer lid)) (\<lambda>_.
     bind (try_except
       (bind (session_get srv (layer_info_request lid)) (\<lambda>response.
        if status_code response = 200 then
          bind (compute (json_body response)) (\<lambda>data.
          bind (print (Capabilities Layer_info_accessible)) (\<lambda>_.
          bind (compute (py_get data ''description'' (PyStr ''N/A''))) (\<lambda>d.
          bind (print (Capabilities (Description d))) (\<lambda>_.
          bind (compute (py_get data ''type'' (PyStr ''N/A''))) (\<lambda>t.
          bind (print (Capabilities (Type_line t))) (\<lambda>_.
          bind (compute (py_get data ''geometryType'' (PyStr ''N/A''))) (\<lambda>g.
          bind (print (Capabilities (Geometry_type g))) (\<lambda>_.
          bind (test_layer_identify srv lid test_coords) (\<lambda>_.
          return ())))))))))
        else print (Capabilities (Layer_info_failed (status_code response)))))
       (\<lambda>e. print (Capabilities (Error_testing_layer e)))) (\<lambda>_.
     return PyNone))"

subsection \<open>investigate\_wms\_layers\<close>

definition wms_request :: request where
  "wms_request =
     \<lparr>url = ''https://wms.geo.admin.ch/'',
      params = [(''SERVICE'', PText ''WMS''),
                (''REQUEST'', PText ''GetCapabilities''),
                (''VERSION'', PText ''1.3.0'')],
      timeout = 15\<rparr>"

text \<open>\<open>root.iter()\<close>: the element and all elements below it, in document order.\<close>

fun iter :: "xml \<Rightarrow> xml list" where
  "iter (Element t x cs) = Element t x cs # concat (map iter cs)"

text \<open>\<open>elem.find('.//T')\<close>: the first element with tag \<open>T\<close> strictly below \<open>elem\<close>,
  in document order, or \<open>None\<close>.\<close>

definition find_descendant :: "string \<Rightarrow> xml \<Rightarrow> xml option" where
  "find_descendant t e = List.find (\<lambda>d. tag d = t) (concat (map iter (children e)))"

text \<open>The body of the loop of lines 149 to 160 for one element: the entry it appends,
  if any.\<close>

definition wms_entry :: "xml \<Rightarrow> wms_layer option" where
  "wms_entry layer =
     (if sublist ''Layer'' (tag layer) then
        (let name_elem = find_descendant ''{http://www.opengis.net/wms}Name'' layer;
             title_elem = find_descendant ''{http://www.opengis.net/wms}Title'' layer
         in case name_elem of
              None \<Rightarrow> None
            | Some ne \<Rightarrow>
                (case elem_text ne of
                   None \<Rightarrow> None
                 | Some name \<Rightarrow>
                     if name \<noteq> [] then
                       (let title = (case title_elem of
                                       Some te \<Rightarrow> elem_text te
                                     | None \<Rightarrow> Some [])
                        in if any_keyword_in (lower name)
                           then Some \<lparr>wms_name = name, wms_title = title\<rparr>
                           else None)
                     else None))
      else None)"

fun wms_layers_loop :: "xml list \<Rightarrow> wms_layer list \<Rightarrow> wms_layer list" where
  "wms_layers_loop [] acc = acc"
| "wms_layers_loop (layer # rest) acc =
     wms_layers_loop rest (case wms_entry layer of Some l \<Rightarrow> acc @ [l] | None \<Rightarrow> acc)"

definition investigate_wms_layers :: "server \<Rightarrow> wms_layer list prog" where
  "investigate_wms_layers srv =
     bind (print (Wms Investigating_wms)) (\<lambda>_.
     try_except
       (bind (session_get srv wms_request) (\<lambda>response.
        if status_code response = 200 then
          bind (compute (xml_body response)) (\<lambda>root.
          bind (return (wms_layers_loop (iter root) [])) (\<lambda>layers.
          bind (print (Wms (Wms_parsed (length layers)))) (\<lambda>_.
          bind (for_each layers (\<lambda>layer. print (Wms (Wms_layer_line layer)))) (\<lambda>_.
          return layers))))
        else
          bind (print (Wms (Wms_failed (status_code response)))) (\<lambda>_.
          return [])))
       (\<lambda>e. bind (print (Wms (Wms_error e))) (\<lambda>_. return [])))"

subsection \<open>test\_alternative\_endpoints\<close>

definition endpoints :: "string list" where
  "endpoints =
     [''https://api3.geo.admin.ch/rest/services/ech/MapServer'',
      ''https://api3.geo.admin.ch/rest/services/all/MapServer'',
      ''https://www.uvek-gis.admin.ch/BFE/sonnendach'',
      ''https://map.geo.admin.ch/services/solarkataster'']"

definition endpoint_request :: "string \<Rightarrow> request" where
  "endpoint_request endpoint = \<lparr>url = endpoint, params = [], timeout = 10\<rparr>"

definition test_alternative_endpoints :: "server \<Rightarrow> pyval prog" where
  "test_alternative_endpoints srv =
     bind (print (Endpoint Testing_alternatives)) (\<lambda>_.
     bind (for_each endpoints (\<lambda>endpoint.
       bind (print (Endpoint (Testing_endpoint endpoint))) (\<lambda>_.
       try_except
         (bind (session_get srv (endpoint_request endpoint)) (\<lambda>response.
          bind (print (Endpoint (Status_line (status_code response)))) (\<lambda>_.
          if status_code response = 200 then
            (let ct = lower (case content_type response of Some s \<Rightarrow> s | None \<Rightarrow> [])
             in if sublist ''json'' ct then
                  try_except
                    (bind (compute (json_body response)) (\<lambda>data. print (Endpoint (Json_response data))))
                    (\<lambda>_. print (Endpoint (Response_length (length (text_body response)))))
                else
                  bind (print (Endpoint (Content_type_line ct))) (\<lambda>_.
                  print (Endpoint (Response_length (length (text_body response))))))
          else return ())))
         (\<lambda>e. print (Endpoint (Endpoint_error e)))))) (\<lambda>_.
     return PyNone))"

subsection \<open>test\_layer\_identify\_simple and search\_for\_correct\_layer\_name\<close>

text \<open>The \<open>params\<close> dict of lines 237 to 247.\<close>

definition identify_simple_dict :: "string \<Rightarrow> pyfloat \<Rightarrow> pyfloat \<Rightarrow> (string \<times> pval) list" where
  "identify_simple_dict lid c0 c1 =
     [(''geometry'', PPoint c0 c1),
      (''geometryType'', PText ''esriGeometryPoint''),
      (''layers'', PText (''all:'' @ lid)),
      (''mapExtent'',
         PBox (float_sub c0 (Finite 100)) (float_sub c1 (Finite 100))
              (float_add c0 (Finite 100)) (float_add c1 (Finite 100))),
      (''imageDisplay'', PText ''200,200,96''),
      (''tolerance'', PText ''50''),
      (''returnGeometry'', PText ''true''),
      (''sr'', PText ''2056''),
      (''lang'', PText ''en'')]"

definition identify_simple_params :: "string \<Rightarrow> pyfloat list \<Rightarrow> exn + (string \<times> pval) list" where
  "identify_simple_params lid coords =
     (case coord coords 0 of
        Inl e \<Rightarrow> Inl e
      | Inr c0 \<Rightarrow>
     (case coord coords 1 of
        Inl e \<Rightarrow> Inl e
      | Inr c1 \<Rightarrow> Inr (identify_simple_dict lid c0 c1)))"

text \<open>The request that line 249 sends for the coordinate pair \<open>(c0, c1)\<close>.\<close>

definition identify_simple_request :: "string \<Rightarrow> pyfloat \<Rightarrow> pyfloat \<Rightarrow> request" where
  "identify_simple_request lid c0 c1 =
     \<lparr>url = identify_url, params = identify_simple_dict lid c0 c1, timeout = 10\<rparr>"

text \<open>
  The \<open>try\<close> block either executes \<open>return True\<close> (value \<open>Some (PyBool True)\<close>) or
  falls through (value \<open>None\<close>), as the \<open>except\<close> block does; line 268 then returns
  \<open>False\<close>.
\<close>

definition test_layer_identify_simple :: "server \<Rightarrow> string \<Rightarrow> pyfloat list \<Rightarrow> pyval prog" where
  "test_layer_identify_simple srv lid coords =
     bind (try_except
       (bind (compute (identify_simple_params lid coords)) (\<lambda>ps.
        bind (session_get srv \<lparr>url = identify_url, params = ps, timeout = 10\<rparr>) (\<lambda>response.
        if status_code response = 200 then
          bind (compute (json_body response)) (\<lambda>data.
          bind (compute (py_get data ''results'' (PyList []))) (\<lambda>results.
          if truthy results then
            bind (compute (py_len results)) (\<lambda>n.
            bind (print (Simple (Simple_success n))) (\<lambda>_.
            bind (compute (py_index0 results)) (\<lambda>result.
            bind (compute (py_get result ''attributes'' (PyDict []))) (\<lambda>attrs.
            bind (compute (py_keys attrs)) (\<lambda>ks.
            bind (print (Simple (Attributes_keys (take 10 ks)))) (\<lambda>_.
            return (Some (PyBool True))))))))
          else
            bind (print (Simple Layer_no_data)) (\<lambda>_. return None)))
        else
          bind (print (Simple (Http_status (status_code response)))) (\<lambda>_. return None))))
       (\<lambda>e. bind (print (Simple (Simple_error e))) (\<lambda>_. return None))) (\<lambda>returned.
     case returned of
       Some v \<Rightarrow> return v
     | None \<Rightarrow> return (PyBool False))"

definition layer_variations :: "string list" where
  "layer_variations =
     [''ch.bfe.sonnendach'',
      ''ch.bfe.sonnendach-potentiale'',
      ''ch.bfe.sonnendach-eigenverbrauch'',
      ''ch.bfe.solar-potentiale'',
      ''ch.bfe.solar'',
      ''ch.sfoe.sonnendach'',
      ''ch.uvek.sonnendach'',
      ''ch.admin.sonnendach'',
      ''ch.energie.sonnendach'',
      ''ch.bfe.solarkataster'']"

definition search_for_correct_layer_name :: "server \<Rightarrow> pyval prog" where
  "search_for_correct_layer_name srv =
     bind (print (Simple Testing_variations)) (\<lambda>_.
     bind (for_each layer_variations (\<lambda>layer_name.
       bind (print (Testing_layer layer_name)) (\<lambda>_.
       test_layer_identify_simple srv layer_name test_coords))) (\<lambda>_.
     return PyNone))"

subsection \<open>run\_full\_investigation and main\<close>

definition run_full_investigation :: "server \<Rightarrow> pyval prog" where
  "run_full_investigation srv =
     bind (print (Banner Banner_title)) (\<lambda>_.
     bind (print (Banner Rule60)) (\<lambda>_.
     bind (investigate_geoadmin_layers srv) (\<lambda>layers.
     bind (for_each (take 3 layers) (\<lambda>layer.
       test_layer_capabilities srv (layer_id layer))) (\<lambda>_.
     bind (investigate_wms_layers srv) (\<lambda>wms_layers.
     bind (search_for_correct_layer_name srv) (\<lambda>_.
     bind (test_alternative_endpoints srv) (\<lambda>_.
     bind (print (Banner Rule60_after_blank)) (\<lambda>_.
     bind (print (Banner Investigation_complete)) (\<lambda>_.
     bind (print (Banner Rule60)) (\<lambda>_.
     return PyNone))))))))))"

text \<open>The script starts with a fresh session and an empty console.\<close>

definition start :: st where
  "start = \<lparr>sent = [], console = []\<rparr>"

definition main :: "server \<Rightarrow> (exn + pyval) \<times> st" where
  "main srv = run_full_investigation srv start"

subsection \<open>The entries of a well-formed catalog\<close>



subsection \<open>Properties of statements\<close>

text \<open>
  Four properties used in the proofs: a statement never raises; a statement sends no
  request and prints the same lines with the same outcome from every state; a
  statement that also sends the same requests from every state; the lists of requests
  a statement may send.
\<close>

definition never_raises :: "'a prog \<Rightarrow> bool" where
  "never_raises m = (\<forall>s. \<exists>v. fst (m s) = Inr v)"

definition quiet :: "'a prog \<Rightarrow> bool" where
  "quiet m = (\<exists>r ls. \<forall>s. m s = (r, s\<lparr>console := console s @ ls\<rparr>))"


definition emits :: "request list set \<Rightarrow> 'a prog \<Rightarrow> bool" where
  "emits R m =
     (\<forall>s. (\<exists>rs\<in>R. sent (snd (m s)) = sent s @ rs) \<and>
          (\<exists>ls. console (snd (m s)) = console s @ ls))"

subsection \<open>Mocked servers and bodies for the scenarios\<close>

text \<open>A response with the given status and JSON outcome, whose XML does not parse.\<close>

definition mock_response :: "int \<Rightarrow> exn + pyval \<Rightarrow> response" where
  "mock_response code body =
     \<lparr>status_code = code, json_body = body, text_body = [], xml_body = Inl ParseError,
      content_type = None\<rparr>"

text \<open>A server that answers every request with the same response, and one for which
  every request raises the same exception.\<close>

definition always_answers :: "response \<Rightarrow> server" where
  "always_answers r = (\<lambda>history req. Inr r)"

definition always_fails :: "exn \<Rightarrow> server" where
  "always_fails e = (\<lambda>history req. Inl e)"


text \<open>Identify bodies: \<open>{"results": []}\<close>; one result whose \<open>attributes\<close> is \<open>null\<close>; one
  result with an attribute.\<close>

definition empty_results :: pyval where
  "empty_results = PyDict [(''results'', PyList [])]"

definition null_attributes :: pyval where
  "null_attributes = PyDict [(''results'', PyList [PyDict [(''attributes'', PyNone)]])]"

definition one_feature :: pyval where
  "one_feature =
     PyDict [(''results'',
        PyList [PyDict [(''layerBodId'', PyStr ''ch.bfe.solar''),
                        (''attributes'', PyDict [(''klasse'', PyInt 3)])]])]"



section \<open>Proofs\<close>

subsection \<open>Running the basic statements\<close>


lemma for_each_print:
  "for_each xs (\<lambda>x. print (f x)) s = (Inr (), s\<lparr>console := console s @ map f xs\<rparr>)"
  by (induction xs arbitrary: s) (simp_all add: print_def)

lemma bind_print_run: "bind (print l) k s = k () (s\<lparr>console := console s @ [l]\<rparr>)"
  by (simp add: bind_def print_def)

lemma bind_compute_Inr: "bind (compute (Inr v)) k = k v"
  by (rule ext) (simp add: bind_def compute_def)

lemma bind_compute_Inl: "bind (compute (Inl e)) k s = (Inl e, s)"
  by (simp add: bind_def compute_def)

lemma bind_return: "bind (return v) k = k v"
  by (rule ext) (simp add: bind_def return_def)

lemma bind_get_run:
  "bind (session_get srv req) k s =
     (case srv (sent s) req of
        Inl e \<Rightarrow> (Inl e, s\<lparr>sent := sent s @ [req]\<rparr>)
      | Inr r \<Rightarrow> k r (s\<lparr>sent := sent s @ [req]\<rparr>))"
  by (simp add: bind_def session_get_def split: sum.splits)

subsection \<open>Statements that never raise\<close>

lemma never_raises_return: "never_raises (return v)"
  by (simp add: never_raises_def return_def)

lemma never_raises_print: "never_raises (print l)"
  by (simp add: never_raises_def print_def)

lemma never_raises_bind:
  assumes "never_raises m" and "\<And>v. never_raises (k v)"
  shows "never_raises (bind m k)"
  unfolding never_raises_def
proof
  fix s
  obtain v where "fst (m s) = Inr v" using assms(1) unfolding never_raises_def by blast
  then have "bind m k s = k v (snd (m s))" by (cases "m s") (simp add: bind_def)
  then show "\<exists>w. fst (bind m k s) = Inr w"
    using assms(2)[of v] unfolding never_raises_def by simp
qed

lemma never_raises_try:
  assumes "\<And>e. never_raises (h e)"
  shows "never_raises (try_except b h)"
  unfolding never_raises_def
proof
  fix s
  obtain r s' where bs: "b s = (r, s')" by (cases "b s")
  show "\<exists>v. fst (try_except b h s) = Inr v"
  proof (cases r)
    case (Inl e)
    then have "try_except b h s = h e s'" by (simp add: try_except_def bs)
    then show ?thesis using assms[of e] unfolding never_raises_def by simp
  next
    case (Inr v)
    then show ?thesis by (simp add: try_except_def bs)
  qed
qed

lemma never_raises_for_each:
  assumes "\<And>x. never_raises (f x)"
  shows "never_raises (for_each xs f)"
  unfolding never_raises_def
proof (induction xs)
  case Nil
  show ?case by simp
next
  case (Cons x xs)
  show ?case
  proof
    fix s
    obtain v where "fst (f x s) = Inr v" using assms unfolding never_raises_def by blast
    then have "for_each (x # xs) f s = for_each xs f (snd (f x s))"
      by (cases "f x s") simp
    then show "\<exists>v. fst (for_each (x # xs) f s) = Inr v"
      using Cons.IH by simp
  qed
qed

lemmas never_raises_intros =
  never_raises_return never_raises_print never_raises_bind never_raises_try never_raises_for_each

subsection \<open>Statements that only print, the same lines from every state\<close>

lemma quiet_return: "quiet (return v)"
  unfolding quiet_def return_def by (intro exI[of _ "Inr v"] exI[of _ "[]"]) simp

lemma quiet_compute: "quiet (compute r)"
  unfolding quiet_def compute_def by (intro exI[of _ r] exI[of _ "[]"]) simp

lemma quiet_print: "quiet (print l)"
  unfolding quiet_def print_def by (intro exI[of _ "Inr ()"] exI[of _ "[l]"]) simp

lemma quiet_for_each_print: "quiet (for_each xs (\<lambda>x. print (f x)))"
  unfolding quiet_def by (intro exI[of _ "Inr ()"] exI[of _ "map f xs"]) (simp add: for_each_print)

lemma quiet_if: "quiet a \<Longrightarrow> quiet b \<Longrightarrow> quiet (if c then a else b)"
  by simp

lemma quiet_let: "quiet (f v) \<Longrightarrow> quiet (let x = v in f x)"
  by simp

lemma quiet_bind:
  assumes "quiet m" and "\<And>v. quiet (k v)"
  shows "quiet (bind m k)"
proof -
  obtain r ls where m: "\<And>s. m s = (r, s\<lparr>console := console s @ ls\<rparr>)"
    using assms(1) unfolding quiet_def by blast
  show ?thesis
  proof (cases r)
    case (Inl e)
    then have "\<forall>s. bind m k s = (Inl e, s\<lparr>console := console s @ ls\<rparr>)"
      by (simp add: bind_def m)
    then show ?thesis unfolding quiet_def by blast
  next
    case (Inr v)
    obtain r' ls' where k: "\<And>s. k v s = (r', s\<lparr>console := console s @ ls'\<rparr>)"
      using assms(2)[of v] unfolding quiet_def by blast
    have "\<forall>s. bind m k s = (r', s\<lparr>console := console s @ (ls @ ls')\<rparr>)"
      by (simp add: bind_def m Inr k)
    then show ?thesis unfolding quiet_def by blast
  qed
qed

lemma quiet_try:
  assumes "quiet b" and "\<And>e. quiet (h e)"
  shows "quiet (try_except b h)"
proof -
  obtain r ls where b: "\<And>s. b s = (r, s\<lparr>console := console s @ ls\<rparr>)"
    using assms(1) unfolding quiet_def by blast
  show ?thesis
  proof (cases r)
    case (Inr v)
    then have "\<forall>s. try_except b h s = (Inr v, s\<lparr>console := console s @ ls\<rparr>)"
      by (simp add: try_except_def b)
    then show ?thesis unfolding quiet_def by blast
  next
    case (Inl e)
    obtain r' ls' where h: "\<And>s. h e s = (r', s\<lparr>console := console s @ ls'\<rparr>)"
      using assms(2)[of e] unfolding quiet_def by blast
    have "\<forall>s. try_except b h s = (r', s\<lparr>console := console s @ (ls @ ls')\<rparr>)"
      by (simp add: try_except_def b Inl h)
    then show ?thesis unfolding quiet_def by blast
  qed
qed

lemmas quiet_intros =
  quiet_return quiet_compute quiet_print quiet_for_each_print quiet_if quiet_let quiet_bind quiet_try

subsection \<open>The requests a statement sends\<close>

lemma emits_quiet: "quiet m \<Longrightarrow> emits {[]} m"
  unfolding quiet_def emits_def by auto

lemma emits_bind:
  assumes "emits R m" and "\<And>v. emits R' (k v)" and "[] \<in> R' \<or> never_raises m"
  shows "emits {rs @ rs' | rs rs'. rs \<in> R \<and> rs' \<in> R'} (bind m k)"
  unfolding emits_def
proof (intro allI)
  fix s :: st
  obtain r s' where ms: "m s = (r, s')" by (cases "m s")
  from assms(1) obtain rs ls where rs: "rs \<in> R" "sent s' = sent s @ rs" "console s' = console s @ ls"
    unfolding emits_def using ms by (metis snd_conv)
  show "(\<exists>rs\<in>{rs @ rs' | rs rs'. rs \<in> R \<and> rs' \<in> R'}. sent (snd (bind m k s)) = sent s @ rs) \<and>
        (\<exists>ls. console (snd (bind m k s)) = console s @ ls)"
  proof (cases r)
    case (Inl e)
    then have b: "bind m k s = (Inl e, s')" by (simp add: bind_def ms)
    have "[] \<in> R'" using assms(3) Inl ms unfolding never_raises_def by (metis Inl_Inr_False fst_conv)
    then show ?thesis using rs b by force
  next
    case (Inr v)
    then have b: "bind m k s = k v s'" by (simp add: bind_def ms)
    from assms(2)[of v] obtain rs' ls' where
      "rs' \<in> R'" "sent (snd (k v s')) = sent s' @ rs'" "console (snd (k v s')) = console s' @ ls'"
      unfolding emits_def by blast
    then show ?thesis using rs b by force
  qed
qed

lemma emits_try:
  assumes "emits R b" and "\<And>e. quiet (h e)"
  shows "emits R (try_except b h)"
  unfolding emits_def
proof (intro allI)
  fix s :: st
  obtain r s' where ms: "b s = (r, s')" by (cases "b s")
  from assms(1) obtain rs ls where rs: "rs \<in> R" "sent s' = sent s @ rs" "console s' = console s @ ls"
    unfolding emits_def using ms by (metis snd_conv)
  show "(\<exists>rs\<in>R. sent (snd (try_except b h s)) = sent s @ rs) \<and>
        (\<exists>ls. console (snd (try_except b h s)) = console s @ ls)"
  proof (cases r)
    case (Inr v)
    then have "try_except b h s = (Inr v, s')" by (simp add: try_except_def ms)
    then show ?thesis using rs by force
  next
    case (Inl e)
    then have b: "try_except b h s = h e s'" by (simp add: try_except_def ms)
    from assms(2)[of e] obtain r' ls' where "h e s' = (r', s'\<lparr>console := console s' @ ls'\<rparr>)"
      unfolding quiet_def by blast
    then show ?thesis using rs b by force
  qed
qed

lemma emits_after_print:
  assumes "emits R (k ())"
  shows "emits R (bind (print l) k)"
  unfolding emits_def
proof (intro allI)
  fix s :: st
  let ?s = "s\<lparr>console := console s @ [l]\<rparr>"
  from assms obtain rs ls where "rs \<in> R" "sent (snd (k () ?s)) = sent ?s @ rs"
    "console (snd (k () ?s)) = console ?s @ ls"
    unfolding emits_def by blast
  then show "(\<exists>rs\<in>R. sent (snd (bind (print l) k s)) = sent s @ rs) \<and>
        (\<exists>ls. console (snd (bind (print l) k s)) = console s @ ls)"
    by (auto simp: bind_print_run)
qed

lemma emits_then_quiet:
  assumes "emits R m" and "\<And>v. quiet (k v)"
  shows "emits R (bind m k)"
  using emits_bind[OF assms(1), of "{[]}" k] assms(2) by (simp add: emits_quiet)

lemma emits_get_then:
  assumes "\<And>r. quiet (k r)"
  shows "emits {[req]} (bind (session_get srv req) k)"
proof -
  have "emits {[req]} (session_get srv req)"
    by (simp add: emits_def session_get_def)
  then show ?thesis using assms by (rule emits_then_quiet)
qed

lemma geoadmin_emits: "emits {[layers_request]} (investigate_geoadmin_layers srv)"
  unfolding investigate_geoadmin_layers_def
  by (intro emits_after_print emits_try emits_get_then quiet_intros)

lemma wms_emits: "emits {[wms_request]} (investigate_wms_layers srv)"
  unfolding investigate_wms_layers_def
  by (intro emits_after_print emits_try emits_get_then quiet_intros)

lemma geoadmin_never_raises: "never_raises (investigate_geoadmin_layers srv)"
  unfolding investigate_geoadmin_layers_def by (intro never_raises_intros)

lemma wms_never_raises: "never_raises (investigate_wms_layers srv)"
  unfolding investigate_wms_layers_def by (intro never_raises_intros)

lemma identify_never_raises: "never_raises (test_layer_identify srv lid coords)"
  unfolding test_layer_identify_def by (intro never_raises_intros)

lemma capabilities_never_raises: "never_raises (test_layer_capabilities srv lid)"
  unfolding test_layer_capabilities_def by (intro never_raises_intros)

lemma simple_never_raises: "never_raises (test_layer_identify_simple srv lid coords)"
  unfolding test_layer_identify_simple_def
  by (intro never_raises_intros) (simp add: never_raises_return split: option.split)

lemma search_never_raises: "never_raises (search_for_correct_layer_name srv)"
  unfolding search_for_correct_layer_name_def
  by (intro never_raises_intros simple_never_raises)

lemma endpoints_never_raises: "never_raises (test_alternative_endpoints srv)"
  unfolding test_alternative_endpoints_def by (intro never_raises_intros)

lemma run_full_never_raises: "never_raises (run_full_investigation srv)"
  unfolding run_full_investigation_def
  by (intro never_raises_intros geoadmin_never_raises capabilities_never_raises
      wms_never_raises search_never_raises endpoints_never_raises)

lemma bind_try_run:
  "bind (try_except b h) k s =
     (case try_except b h s of (Inl e, s') \<Rightarrow> (Inl e, s') | (Inr v, s') \<Rightarrow> k v s')"
  by (simp add: bind_def)

lemma bind_for_each_print_run:
  "bind (for_each xs (\<lambda>x. print (f x))) k s = k () (s\<lparr>console := console s @ map f xs\<rparr>)"
  by (simp add: bind_def for_each_print)

lemmas run_simps =
  bind_print_run bind_compute_Inr bind_compute_Inl bind_return bind_get_run bind_try_run
  bind_for_each_print_run try_except_def return_def print_def

lemma coord_pair: "coord (x # y # rest) 0 = Inr x" "coord (x # y # rest) (Suc 0) = Inr y"
  by (simp_all add: coord_def)

lemma identify_params_pair: "identify_params lid (x # y # rest) = Inr (identify_dict lid x y)"
  by (simp add: identify_params_def coord_pair)

lemma identify_simple_params_pair:
  "identify_simple_params lid (x # y # rest) = Inr (identify_simple_dict lid x y)"
  by (simp add: identify_simple_params_def coord_pair)

lemma geoadmin_non_200:
  "srv (sent s) layers_request = Inr r \<Longrightarrow> status_code r \<noteq> 200 \<Longrightarrow>
   fst (investigate_geoadmin_layers srv s) = Inr []"
  by (simp add: investigate_geoadmin_layers_def run_simps)

lemma wms_non_200:
  "srv (sent s) wms_request = Inr r \<Longrightarrow> status_code r \<noteq> 200 \<Longrightarrow>
   fst (investigate_wms_layers srv s) = Inr []"
  by (simp add: investigate_wms_layers_def run_simps)

lemma simple_non_200:
  "srv (sent s) (identify_simple_request lid x y) = Inr r \<Longrightarrow> status_code r \<noteq> 200 \<Longrightarrow>
   fst (test_layer_identify_simple srv lid (x # y # rest) s) = Inr (PyBool False)"
  by (simp add: test_layer_identify_simple_def identify_simple_params_pair
      identify_simple_request_def run_simps)

text \<open>
  Claim C2. When the response to a probe's request has a status other than 200, the
  probe returns normally: \<open>investigate_geoadmin_layers\<close> and
  \<open>investigate_wms_layers\<close> return the empty list, and
  \<open>test_layer_identify_simple\<close> returns \<open>False\<close>.
\<close>

theorem non_200_gives_empty_or_false:
  assumes "status_code r \<noteq> 200"
  shows "(srv (sent s) layers_request = Inr r \<longrightarrow>
            fst (investigate_geoadmin_layers srv s) = Inr []) \<and>
         (srv (sent s) wms_request = Inr r \<longrightarrow>
            fst (investigate_wms_layers srv s) = Inr []) \<and>
         (srv (sent s) (identify_simple_request lid x y) = Inr r \<longrightarrow>
            fst (test_layer_identify_simple srv lid (x # y # rest) s) = Inr (PyBool False))"
  using assms geoadmin_non_200 wms_non_200 simple_non_200 by blast

theorem non_200_gives_empty_or_false_witness:
  "fst (investigate_geoadmin_layers (always_answers (mock_response 404 (Inl JSONDecodeError)))
          start) = Inr [] \<and>
   fst (investigate_wms_layers (always_answers (mock_response 404 (Inl JSONDecodeError)))
          start) = Inr [] \<and>
   fst (test_layer_identify_simple (always_answers (mock_response 404 (Inl JSONDecodeError)))
          ''ch.bfe.sonnendach'' test_coords start) = Inr (PyBool False)"
  using non_200_gives_empty_or_false
    [of "mock_response 404 (Inl JSONDecodeError)"
        "always_answers (mock_response 404 (Inl JSONDecodeError))" start
        "''ch.bfe.sonnendach''" "test_coords ! 0" "test_coords ! 1" "[]"]
  by (simp add: always_answers_def mock_response_def test_coords_def)

text \<open>
  Claim C5. When the catalog request is answered with status 200 and the body
  \<open>{"layers": [{"layerId": "ch.bfe.solarkataster", "name": "Solar", "type": "vector"}]}\<close>,
  \<open>investigate_geoadmin_layers\<close> returns a list with exactly one entry, whose id is
  \<open>ch.bfe.solarkataster\<close>.
\<close>

theorem catalog_scenario_one_entry:
  assumes "srv (sent s) layers_request = Inr r"
    and "status_code r = 200"
    and "json_body r =
           Inr (PyDict [(''layers'',
                  PyList [PyDict [(''layerId'', PyStr ''ch.bfe.solarkataster''),
                                  (''name'', PyStr ''Solar''),
                                  (''type'', PyStr ''vector'')]])])"
  shows "fst (investigate_geoadmin_layers srv s) =
           Inr [\<lparr>layer_id = ''ch.bfe.solarkataster'', layer_name = PyStr ''Solar'',
                 layer_type = PyStr ''vector''\<rparr>]"
  using assms
  by (simp add: investigate_geoadmin_layers_def run_simps any_keyword_in_def
      solar_keywords_def lower_def lower_char_def sublist_code)

theorem catalog_scenario_one_entry_witness:
  "fst (investigate_geoadmin_layers
          (always_answers (mock_response 200
             (Inr (PyDict [(''layers'',
                  PyList [PyDict [(''layerId'', PyStr ''ch.bfe.solarkataster''),
                                  (''name'', PyStr ''Solar''),
                                  (''type'', PyStr ''vector'')]])]))))
          start) =
     Inr [\<lparr>layer_id = ''ch.bfe.solarkataster'', layer_name = PyStr ''Solar'',
           layer_type = PyStr ''vector''\<rparr>]"
  using catalog_scenario_one_entry
    [of "always_answers (mock_response 200
             (Inr (PyDict [(''layers'',
                  PyList [PyDict [(''layerId'', PyStr ''ch.bfe.solarkataster''),
                                  (''name'', PyStr ''Solar''),
                                  (''type'', PyStr ''vector'')]])])))" start
        "mock_response 200
             (Inr (PyDict [(''layers'',
                  PyList [PyDict [(''layerId'', PyStr ''ch.bfe.solarkataster''),
                                  (''name'', PyStr ''Solar''),
                                  (''type'', PyStr ''vector'')]])]))"]
  by (simp add: always_answers_def mock_response_def)

subsection \<open>Exceptions in the probes\<close>

lemma geoadmin_transport:
  "srv (sent s) layers_request = Inl e \<Longrightarrow> fst (investigate_geoadmin_layers srv s) = Inr []"
  by (simp add: investigate_geoadmin_layers_def run_simps)

lemma geoadmin_parse_failure:
  "srv (sent s) layers_request = Inr r \<Longrightarrow> status_code r = 200 \<Longrightarrow> json_body r = Inl e \<Longrightarrow>
   fst (investigate_geoadmin_layers srv s) = Inr []"
  by (simp add: investigate_geoadmin_layers_def run_simps)

lemma wms_transport:
  "srv (sent s) wms_request = Inl e \<Longrightarrow> fst (investigate_wms_layers srv s) = Inr []"
  by (simp add: investigate_wms_layers_def run_simps)

lemma wms_parse_failure:
  "srv (sent s) wms_request = Inr r \<Longrightarrow> status_code r = 200 \<Longrightarrow> xml_body r = Inl e \<Longrightarrow>
   fst (investigate_wms_layers srv s) = Inr []"
  by (simp add: investigate_wms_layers_def run_simps)

lemma simple_transport:
  "srv (sent s) (identify_simple_request lid x y) = Inl e \<Longrightarrow>
   fst (test_layer_identify_simple srv lid (x # y # rest) s) = Inr (PyBool False)"
  by (simp add: test_layer_identify_simple_def identify_simple_params_pair
      identify_simple_request_def run_simps)

lemma simple_parse_failure:
  "srv (sent s) (identify_simple_request lid x y) = Inr r \<Longrightarrow> status_code r = 200 \<Longrightarrow>
   json_body r = Inl e \<Longrightarrow>
   fst (test_layer_identify_simple srv lid (x # y # rest) s) = Inr (PyBool False)"
  by (simp add: test_layer_identify_simple_def identify_simple_params_pair
      identify_simple_request_def run_simps)

lemma bind_const_result:
  assumes "never_raises m"
  shows "fst (bind m (\<lambda>_. return v) s) = Inr v"
proof -
  obtain w where "fst (m s) = Inr w" using assms unfolding never_raises_def by blast
  then show ?thesis by (cases "m s") (simp add: bind_def return_def)
qed

lemma print_then_const_result:
  assumes "never_raises m"
  shows "fst (bind (print l) (\<lambda>_. bind m (\<lambda>_. return v)) s) = Inr v"
  using assms by (simp add: bind_print_run bind_const_result)

lemma identify_returns_None: "fst (test_layer_identify srv lid coords s) = Inr PyNone"
  unfolding test_layer_identify_def
  by (intro print_then_const_result never_raises_intros)

lemma capabilities_returns_None: "fst (test_layer_capabilities srv lid s) = Inr PyNone"
  unfolding test_layer_capabilities_def
  by (intro print_then_const_result never_raises_intros)

lemma endpoints_returns_None: "fst (test_alternative_endpoints srv s) = Inr PyNone"
  unfolding test_alternative_endpoints_def
  by (intro print_then_const_result never_raises_intros)

lemma search_returns_None: "fst (search_for_correct_layer_name srv s) = Inr PyNone"
  unfolding search_for_correct_layer_name_def
  by (intro print_then_const_result never_raises_intros simple_never_raises)

lemma run_full_returns_None: "fst (run_full_investigation srv s) = Inr PyNone"
proof -
  obtain v where "fst (run_full_investigation srv s) = Inr v"
    using run_full_never_raises unfolding never_raises_def by blast
  moreover have "fst (run_full_investigation srv s) = Inr v \<Longrightarrow> v = PyNone"
    unfolding run_full_investigation_def
    by (auto simp: bind_def return_def print_def split: prod.splits sum.splits)
  ultimately show ?thesis by simp
qed


subsection \<open>The requests each method sends\<close>

lemma emits_single: "emits {rs} m \<Longrightarrow> sent (snd (m s)) = sent s @ rs"
  unfolding emits_def by simp

lemma emits_console: "emits R m \<Longrightarrow> \<exists>ls. console (snd (m s)) = console s @ ls"
  unfolding emits_def by simp

lemma identify_emits:
  "emits {[identify_request lid x y]} (test_layer_identify srv lid (x # y # rest))"
  unfolding test_layer_identify_def identify_params_pair bind_compute_Inr identify_request_def
  by (intro emits_after_print emits_then_quiet emits_try emits_get_then quiet_intros)

lemma simple_emits:
  "emits {[identify_simple_request lid x y]} (test_layer_identify_simple srv lid (x # y # rest))"
  unfolding test_layer_identify_simple_def identify_simple_params_pair bind_compute_Inr
    identify_simple_request_def
  by (intro emits_then_quiet emits_try emits_get_then quiet_intros)
    (simp add: quiet_return split: option.split)

lemma emits_weaken: "emits R m \<Longrightarrow> R \<subseteq> R' \<Longrightarrow> emits R' m"
  unfolding emits_def by blast

lemma emits_if: "emits R a \<Longrightarrow> emits R b \<Longrightarrow> emits R (if c then a else b)"
  by simp

lemma emits_quiet_then:
  assumes "quiet m" and "\<And>v. emits R (k v)" and "[] \<in> R"
  shows "emits R (bind m k)"
proof -
  have "emits {rs @ rs' | rs rs'. rs \<in> {[]} \<and> rs' \<in> R} (bind m k)"
    using assms by (intro emits_bind emits_quiet) auto
  then show ?thesis by simp
qed

lemma for_each_Cons_bind: "for_each (x # xs) f = bind (f x) (\<lambda>_. for_each xs f)"
  by (rule ext) (simp add: bind_def)

lemma for_each_emits_map:
  assumes "\<And>x. emits {[g x]} (f x)" and "\<And>x. never_raises (f x)"
  shows "emits {map g xs} (for_each xs f)"
proof (induction xs)
  case Nil
  show ?case by (simp add: emits_def)
next
  case (Cons x xs)
  have "emits {rs @ rs' | rs rs'. rs \<in> {[g x]} \<and> rs' \<in> {map g xs}}
          (bind (f x) (\<lambda>_. for_each xs f))"
    using assms Cons.IH by (intro emits_bind) auto
  then show ?case by (simp add: for_each_Cons_bind)
qed

lemma for_each_emits_groups:
  assumes "\<And>x. emits (R x) (f x)" and "\<And>x. never_raises (f x)"
  shows "emits {concat gs | gs. list_all2 (\<lambda>x rs. rs \<in> R x) xs gs} (for_each xs f)"
proof (induction xs)
  case Nil
  show ?case by (simp add: emits_def)
next
  case (Cons x xs)
  have "emits {rs @ rs' | rs rs'. rs \<in> R x \<and>
                 rs' \<in> {concat gs | gs. list_all2 (\<lambda>x rs. rs \<in> R x) xs gs}}
          (bind (f x) (\<lambda>_. for_each xs f))"
    using assms Cons.IH by (intro emits_bind) auto
  moreover have "{rs @ rs' | rs rs'. rs \<in> R x \<and>
                 rs' \<in> {concat gs | gs. list_all2 (\<lambda>x rs. rs \<in> R x) xs gs}}
        \<subseteq> {concat gs | gs. list_all2 (\<lambda>x rs. rs \<in> R x) (x # xs) gs}"
  proof
    fix q
    assume "q \<in> {rs @ rs' | rs rs'. rs \<in> R x \<and>
                 rs' \<in> {concat gs | gs. list_all2 (\<lambda>x rs. rs \<in> R x) xs gs}}"
    then obtain rs gs where "q = rs @ concat gs" "rs \<in> R x" "list_all2 (\<lambda>x rs. rs \<in> R x) xs gs"
      by blast
    then have "q = concat (rs # gs) \<and> list_all2 (\<lambda>x rs. rs \<in> R x) (x # xs) (rs # gs)"
      by simp
    then show "q \<in> {concat gs | gs. list_all2 (\<lambda>x rs. rs \<in> R x) (x # xs) gs}"
      by blast
  qed
  ultimately show ?case unfolding for_each_Cons_bind by (rule emits_weaken)
qed

lemma endpoint_emits:
  "emits {map endpoint_request endpoints} (test_alternative_endpoints srv)"
  unfolding test_alternative_endpoints_def
  by (intro emits_after_print emits_then_quiet for_each_emits_map emits_try emits_get_then
      quiet_intros never_raises_intros)

lemma test_coords_pair: "[test_coords ! 0, test_coords ! 1] = test_coords"
  by (simp add: test_coords_def)

lemma identify_emits_test:
  "emits {[identify_request lid (test_coords ! 0) (test_coords ! 1)]}
     (test_layer_identify srv lid test_coords)"
  using identify_emits[where x = "test_coords ! 0" and y = "test_coords ! 1" and rest = "[]"]
  by (simp only: test_coords_pair)

lemma simple_emits_test:
  "emits {[identify_simple_request lid (test_coords ! 0) (test_coords ! 1)]}
     (test_layer_identify_simple srv lid test_coords)"
  using simple_emits[where x = "test_coords ! 0" and y = "test_coords ! 1" and rest = "[]"]
  by (simp only: test_coords_pair)

lemma search_emits:
  "emits {map (\<lambda>n. identify_simple_request n (test_coords ! 0) (test_coords ! 1)) layer_variations}
     (search_for_correct_layer_name srv)"
  unfolding search_for_correct_layer_name_def
  by (intro emits_after_print emits_then_quiet for_each_emits_map simple_emits_test
      quiet_intros never_raises_intros simple_never_raises)

lemma emits_get_then_maybe:
  assumes "\<And>r. emits {[], [q]} (k r)"
  shows "emits {[req], [req, q]} (bind (session_get srv req) k)"
proof -
  have "emits {[req]} (session_get srv req)"
    by (simp add: emits_def session_get_def)
  then have "emits {rs @ rs' | rs rs'. rs \<in> {[req]} \<and> rs' \<in> {[], [q]}}
               (bind (session_get srv req) k)"
    using assms by (intro emits_bind) auto
  then show ?thesis by (rule emits_weaken) auto
qed

lemma capabilities_emits:
  "emits {[layer_info_request lid],
          [layer_info_request lid, identify_request lid (test_coords ! 0) (test_coords ! 1)]}
     (test_layer_capabilities srv lid)"
proof -
  let ?ident = "identify_request lid (test_coords ! 0) (test_coords ! 1)"
  have ident: "emits {[], [?ident]} (bind (test_layer_identify srv lid test_coords) (\<lambda>_. return ()))"
    by (rule emits_weaken[OF emits_then_quiet[OF identify_emits_test]])
      (simp_all add: quiet_return)
  have failed: "emits {[], [?ident]} (print l)" for l
    by (rule emits_weaken[OF emits_quiet[OF quiet_print]]) simp
  show ?thesis
    unfolding test_layer_capabilities_def
    apply (rule emits_after_print)
    apply (rule emits_then_quiet)
     apply (rule emits_try)
      apply (rule emits_get_then_maybe)
      apply (intro emits_if emits_quiet_then[OF quiet_compute] emits_quiet_then[OF quiet_print]
        ident failed insertI1)
     apply (rule quiet_print)
    apply (rule quiet_return)
    done
qed

subsection \<open>The order of the full investigation\<close>

lemma bind_total:
  assumes "never_raises m"
  shows "bind m k s = k (projr (fst (m s))) (snd (m s))"
proof -
  obtain v where "fst (m s) = Inr v" using assms unfolding never_raises_def by blast
  then show ?thesis by (cases "m s") (simp add: bind_def)
qed

lemma result_total:
  assumes "never_raises m"
  shows "fst (m s) = Inr (projr (fst (m s)))"
proof -
  obtain v where "fst (m s) = Inr v" using assms unfolding never_raises_def by blast
  then show ?thesis by simp
qed

lemma announce_first:
  assumes "emits R (k ())"
  shows "\<exists>ls. console (snd (bind (print l) k s)) = console s @ l # ls"
proof -
  obtain ls where
    "console (snd (k () (s\<lparr>console := console s @ [l]\<rparr>))) =
       console (s\<lparr>console := console s @ [l]\<rparr>) @ ls"
    using emits_console[OF assms] by blast
  then show ?thesis by (simp add: bind_print_run)
qed

lemma geoadmin_console:
  "\<exists>ls. console (snd (investigate_geoadmin_layers srv s)) =
          console s @ Geoadmin Investigating_layers # ls"
  unfolding investigate_geoadmin_layers_def
  by (rule announce_first[where R = "{[layers_request]}"]) (intro emits_try emits_get_then quiet_intros)

lemma wms_console:
  "\<exists>ls. console (snd (investigate_wms_layers srv s)) = console s @ Wms Investigating_wms # ls"
  unfolding investigate_wms_layers_def
  by (rule announce_first[where R = "{[wms_request]}"]) (intro emits_try emits_get_then quiet_intros)

lemma search_console:
  "\<exists>ls. console (snd (search_for_correct_layer_name srv s)) =
          console s @ Simple Testing_variations # ls"
  unfolding search_for_correct_layer_name_def
  by (rule announce_first[where R = "{map (\<lambda>n. identify_simple_request n (test_coords ! 0) (test_coords ! 1)) layer_variations}"])
    (intro emits_after_print emits_then_quiet for_each_emits_map simple_emits_test
      quiet_intros never_raises_intros simple_never_raises)

lemma endpoints_console:
  "\<exists>ls. console (snd (test_alternative_endpoints srv s)) =
          console s @ Endpoint Testing_alternatives # ls"
  unfolding test_alternative_endpoints_def
  by (rule announce_first[where R = "{map endpoint_request endpoints}"])
    (intro emits_after_print emits_then_quiet for_each_emits_map emits_try emits_get_then
      quiet_intros never_raises_intros)

lemma capabilities_loop_never_raises:
  "never_raises (for_each ls (\<lambda>layer. test_layer_capabilities srv (layer_id layer)))"
  by (intro never_raises_intros capabilities_never_raises)

lemma capabilities_loop_emits:
  "emits {concat gs | gs.
            list_all2 (\<lambda>layer rs. rs \<in> {[layer_info_request (layer_id layer)],
                         [layer_info_request (layer_id layer),
                          identify_request (layer_id layer) (test_coords ! 0) (test_coords ! 1)]})
              ls gs}
     (for_each ls (\<lambda>layer. test_layer_capabilities srv (layer_id layer)))"
  by (intro for_each_emits_groups capabilities_emits capabilities_never_raises)

lemma run_full_structure:
  "\<exists>layers groups l1 l2 l3 l4 l5.
     fst (investigate_geoadmin_layers srv
            (s\<lparr>console := console s @ [Banner Banner_title, Banner Rule60]\<rparr>)) = Inr layers \<and>
     list_all2 (\<lambda>layer rs.
          rs = [layer_info_request (layer_id layer)] \<or>
          rs = [layer_info_request (layer_id layer),
                identify_request (layer_id layer) (test_coords ! 0) (test_coords ! 1)])
        (take 3 layers) groups \<and>
     sent (snd (run_full_investigation srv s)) =
       sent s @ [layers_request] @ concat groups @ [wms_request] @
       map (\<lambda>n. identify_simple_request n (test_coords ! 0) (test_coords ! 1)) layer_variations @
       map endpoint_request endpoints \<and>
     console (snd (run_full_investigation srv s)) =
       console s @ [Banner Banner_title, Banner Rule60] @
       Geoadmin Investigating_layers # l1 @ l2 @
       Wms Investigating_wms # l3 @
       Simple Testing_variations # l4 @
       Endpoint Testing_alternatives # l5 @
       [Banner Rule60_after_blank, Banner Investigation_complete, Banner Rule60] \<and>
     fst (run_full_investigation srv s) = Inr PyNone"
proof -
  let ?s1 = "s\<lparr>console := console s @ [Banner Banner_title, Banner Rule60]\<rparr>"
  let ?layers = "projr (fst (investigate_geoadmin_layers srv ?s1))"
  let ?s2 = "snd (investigate_geoadmin_layers srv ?s1)"
  let ?loop = "for_each (take 3 ?layers) (\<lambda>layer. test_layer_capabilities srv (layer_id layer))"
  let ?s3 = "snd (?loop ?s2)"
  let ?s4 = "snd (investigate_wms_layers srv ?s3)"
  let ?s5 = "snd (search_for_correct_layer_name srv ?s4)"
  let ?s6 = "snd (test_alternative_endpoints srv ?s5)"
  have run: "run_full_investigation srv s =
      (Inr PyNone, ?s6\<lparr>console := console ?s6 @
         [Banner Rule60_after_blank, Banner Investigation_complete, Banner Rule60]\<rparr>)"
    by (simp add: run_full_investigation_def bind_print_run return_def
        bind_total[OF geoadmin_never_raises] bind_total[OF capabilities_loop_never_raises]
        bind_total[OF wms_never_raises] bind_total[OF search_never_raises]
        bind_total[OF endpoints_never_raises])
  have layers: "fst (investigate_geoadmin_layers srv ?s1) = Inr ?layers"
    by (rule result_total[OF geoadmin_never_raises])
  obtain l1 where c2: "console ?s2 = console ?s1 @ Geoadmin Investigating_layers # l1"
    using geoadmin_console by blast
  have t2: "sent ?s2 = sent ?s1 @ [layers_request]"
    by (rule emits_single[OF geoadmin_emits])
  obtain groups where
    g: "list_all2 (\<lambda>layer rs. rs \<in> {[layer_info_request (layer_id layer)],
                         [layer_info_request (layer_id layer),
                          identify_request (layer_id layer) (test_coords ! 0) (test_coords ! 1)]})
              (take 3 ?layers) groups"
    and t3: "sent ?s3 = sent ?s2 @ concat groups"
    using capabilities_loop_emits[of "take 3 ?layers" srv] unfolding emits_def by blast
  obtain l2 where c3: "console ?s3 = console ?s2 @ l2"
    using emits_console[OF capabilities_loop_emits] by blast
  obtain l3 where c4: "console ?s4 = console ?s3 @ Wms Investigating_wms # l3"
    using wms_console by blast
  have t4: "sent ?s4 = sent ?s3 @ [wms_request]"
    by (rule emits_single[OF wms_emits])
  obtain l4 where c5: "console ?s5 = console ?s4 @ Simple Testing_variations # l4"
    using search_console by blast
  have t5: "sent ?s5 = sent ?s4 @
      map (\<lambda>n. identify_simple_request n (test_coords ! 0) (test_coords ! 1)) layer_variations"
    by (rule emits_single[OF search_emits])
  obtain l5 where c6: "console ?s6 = console ?s5 @ Endpoint Testing_alternatives # l5"
    using endpoints_console by blast
  have t6: "sent ?s6 = sent ?s5 @ map endpoint_request endpoints"
    by (rule emits_single[OF endpoint_emits])
  have g': "list_all2 (\<lambda>layer rs.
          rs = [layer_info_request (layer_id layer)] \<or>
          rs = [layer_info_request (layer_id layer),
                identify_request (layer_id layer) (test_coords ! 0) (test_coords ! 1)])
        (take 3 ?layers) groups"
    using g by (rule list_all2_mono) auto
  have sent_all: "sent (snd (run_full_investigation srv s)) =
       sent s @ [layers_request] @ concat groups @ [wms_request] @
       map (\<lambda>n. identify_simple_request n (test_coords ! 0) (test_coords ! 1)) layer_variations @
       map endpoint_request endpoints"
    by (simp add: run t6 t5 t4 t3 t2)
  have console_all: "console (snd (run_full_investigation srv s)) =
       console s @ [Banner Banner_title, Banner Rule60] @
       Geoadmin Investigating_layers # l1 @ l2 @
       Wms Investigating_wms # l3 @
       Simple Testing_variations # l4 @
       Endpoint Testing_alternatives # l5 @
       [Banner Rule60_after_blank, Banner Investigation_complete, Banner Rule60]"
    by (simp add: run c6 c5 c4 c3 c2)
  have "fst (run_full_investigation srv s) = Inr PyNone"
    by (simp only: run fst_conv)
  with layers g' sent_all console_all show ?thesis
    by (intro exI[of _ ?layers] exI[of _ groups] exI[of _ l1] exI[of _ l2] exI[of _ l3]
        exI[of _ l4] exI[of _ l5] conjI)
qed

subsection \<open>The simplified probe depends only on the answer to its own request\<close>









section \<open>The claims\<close>

text \<open>
  Claim C3. When \<open>session.get\<close> raises, or the body of a 200 response fails to parse,
  the probe catches the exception and returns normally: \<open>investigate_geoadmin_layers\<close>
  and \<open>investigate_wms_layers\<close> return the empty list and
  \<open>test_layer_identify_simple\<close> returns \<open>False\<close>. No method raises to its caller
  whatever the servers do, and the full investigation always goes on to the WMS
  request, the ten candidate probes and the four alternative endpoints.
\<close>

theorem exceptions_are_caught_in_the_probe:
  "(srv (sent s) layers_request = Inl e \<longrightarrow>
      fst (investigate_geoadmin_layers srv s) = Inr []) \<and>
   (srv (sent s) layers_request = Inr r \<and> status_code r = 200 \<and> json_body r = Inl e \<longrightarrow>
      fst (investigate_geoadmin_layers srv s) = Inr []) \<and>
   (srv (sent s) wms_request = Inl e \<longrightarrow>
      fst (investigate_wms_layers srv s) = Inr []) \<and>
   (srv (sent s) wms_request = Inr r \<and> status_code r = 200 \<and> xml_body r = Inl e \<longrightarrow>
      fst (investigate_wms_layers srv s) = Inr []) \<and>
   (srv (sent s) (identify_simple_request lid x y) = Inl e \<longrightarrow>
      fst (test_layer_identify_simple srv lid (x # y # rest) s) = Inr (PyBool False)) \<and>
   (srv (sent s) (identify_simple_request lid x y) = Inr r \<and> status_code r = 200 \<and>
    json_body r = Inl e \<longrightarrow>
      fst (test_layer_identify_simple srv lid (x # y # rest) s) = Inr (PyBool False)) \<and>
   (\<exists>ls. fst (investigate_geoadmin_layers srv s) = Inr ls) \<and>
   (\<exists>ls. fst (investigate_wms_layers srv s) = Inr ls) \<and>
   (\<exists>b. fst (test_layer_identify_simple srv lid coords s) = Inr b) \<and>
   fst (test_layer_identify srv lid coords s) = Inr PyNone \<and>
   fst (test_layer_capabilities srv lid s) = Inr PyNone \<and>
   fst (test_alternative_endpoints srv s) = Inr PyNone \<and>
   fst (search_for_correct_layer_name srv s) = Inr PyNone \<and>
   fst (run_full_investigation srv s) = Inr PyNone \<and>
   (\<exists>before. sent (snd (run_full_investigation srv s)) =
      before @ [wms_request] @
      map (\<lambda>n. identify_simple_request n (test_coords ! 0) (test_coords ! 1)) layer_variations @
      map endpoint_request endpoints)"
proof -
  have "\<exists>before. sent (snd (run_full_investigation srv s)) =
      before @ [wms_request] @
      map (\<lambda>n. identify_simple_request n (test_coords ! 0) (test_coords ! 1)) layer_variations @
      map endpoint_request endpoints"
  proof -
    obtain groups where "sent (snd (run_full_investigation srv s)) =
       sent s @ [layers_request] @ concat groups @ [wms_request] @
       map (\<lambda>n. identify_simple_request n (test_coords ! 0) (test_coords ! 1)) layer_variations @
       map endpoint_request endpoints"
      using run_full_structure[of srv s] by blast
    then have "sent (snd (run_full_investigation srv s)) =
       (sent s @ [layers_request] @ concat groups) @ [wms_request] @
       map (\<lambda>n. identify_simple_request n (test_coords ! 0) (test_coords ! 1)) layer_variations @
       map endpoint_request endpoints"
      by simp
    then show ?thesis by (rule exI)
  qed
  moreover have "\<exists>ls. fst (investigate_geoadmin_layers srv s) = Inr ls"
    using geoadmin_never_raises unfolding never_raises_def by blast
  moreover have "\<exists>ls. fst (investigate_wms_layers srv s) = Inr ls"
    using wms_never_raises unfolding never_raises_def by blast
  moreover have "\<exists>b. fst (test_layer_identify_simple srv lid coords s) = Inr b"
    using simple_never_raises unfolding never_raises_def by blast
  ultimately show ?thesis
    using geoadmin_transport[of srv s e] geoadmin_parse_failure[of srv s r e]
      wms_transport[of srv s e] wms_parse_failure[of srv s r e]
      simple_transport[of srv s lid x y e rest] simple_parse_failure[of srv s lid x y r e rest]
      identify_returns_None[of srv lid coords s] capabilities_returns_None[of srv lid s]
      endpoints_returns_None[of srv s] search_returns_None[of srv s]
      run_full_returns_None[of srv s]
    by (intro conjI impI) (simp_all only:)
qed

theorem exceptions_are_caught_in_the_probe_witness:
  "fst (investigate_geoadmin_layers (always_fails Timeout) start) = Inr [] \<and>
   fst (investigate_wms_layers (always_fails Timeout) start) = Inr [] \<and>
   fst (test_layer_identify_simple (always_fails Timeout) ''ch.bfe.solar'' test_coords start) =
     Inr (PyBool False) \<and>
   fst (investigate_geoadmin_layers
          (always_answers (mock_response 200 (Inl JSONDecodeError))) start) = Inr [] \<and>
   fst (investigate_wms_layers
          (always_answers (mock_response 200 (Inl JSONDecodeError))) start) = Inr [] \<and>
   fst (test_layer_identify_simple
          (always_answers (mock_response 200 (Inl JSONDecodeError)))
          ''ch.bfe.solar'' test_coords start) = Inr (PyBool False)"
  using exceptions_are_caught_in_the_probe
      [of "always_fails Timeout" start Timeout "mock_response 200 (Inl JSONDecodeError)"
          "''ch.bfe.solar''" "test_coords ! 0" "test_coords ! 1" "[]" test_coords]
    exceptions_are_caught_in_the_probe
      [of "always_answers (mock_response 200 (Inl JSONDecodeError))" start JSONDecodeError
          "mock_response 200 (Inl JSONDecodeError)"
          "''ch.bfe.solar''" "test_coords ! 0" "test_coords ! 1" "[]" test_coords]
    exceptions_are_caught_in_the_probe
      [of "always_answers (mock_response 200 (Inl JSONDecodeError))" start ParseError
          "mock_response 200 (Inl JSONDecodeError)"
          "''ch.bfe.solar''" "test_coords ! 0" "test_coords ! 1" "[]" test_coords]
  by (simp add: always_fails_def always_answers_def mock_response_def test_coords_def)

subsection \<open>The binary exponent and the rounding to an integer\<close>

text \<open>
  \<open>ilog2\<close> is the binary exponent, \<open>2^(ilog2 a) \<le> a < 2^(ilog2 a + 1)\<close>, and
  \<open>round_half_even\<close> is within a half of its argument.
\<close>

lemma bits_pos: "0 < n \<Longrightarrow> bits n = Suc (bits (n div 2))"
  by (subst bits.simps) simp

lemma bits_nonpos: "n \<le> 0 \<Longrightarrow> bits n = 0"
  by (subst bits.simps) simp

lemma bits_bounds: "0 < n \<Longrightarrow> 2 ^ (bits n - 1) \<le> n \<and> n < 2 ^ bits n"
proof (induction n rule: bits.induct)
  case (1 n)
  show ?case
  proof (cases "n div 2 = 0")
    case True
    with "1.prems" have "n = 1" by presburger
    then show ?thesis by (simp add: bits_pos bits_nonpos)
  next
    case False
    with "1.prems" have pos: "0 < n div 2" by presburger
    then have ih: "2 ^ (bits (n div 2) - 1) \<le> n div 2 \<and> n div 2 < 2 ^ bits (n div 2)"
      using "1.IH" "1.prems" by simp
    have b: "bits n = Suc (bits (n div 2))" using "1.prems" by (rule bits_pos)
    have ge: "1 \<le> bits (n div 2)" using pos by (simp add: bits_pos)
    then have "(2::int) ^ bits (n div 2) = 2 * 2 ^ (bits (n div 2) - 1)"
      by (cases "bits (n div 2)") simp_all
    then have "(2::int) ^ bits (n div 2) \<le> 2 * (n div 2)" using ih by simp
    moreover have "2 * (n div 2) \<le> n" by presburger
    moreover have "n < 2 * (n div 2) + 2" by presburger
    moreover have "2 * (n div 2) + 2 \<le> 2 * 2 ^ bits (n div 2)" using ih by simp
    ultimately show ?thesis by (simp add: b)
  qed
qed

lemma pow2_powi: "pow2 k = 2 powi k"
  by (simp add: pow2_def power_int_def field_simps)

lemma ilog2_bounds:
  assumes "0 < a"
  shows "pow2 (ilog2 a) \<le> a \<and> a < pow2 (ilog2 a + 1)"
proof -
  obtain p q where pq: "quotient_of a = (p, q)" by (cases "quotient_of a")
  then have q: "0 < q" using quotient_of_denom_pos by blast
  have a: "a = of_int p / of_int q" using pq by (rule quotient_of_div)
  have p: "0 < p" using assms q a by (simp add: zero_less_divide_iff)
  let ?bp = "bits p" and ?bq = "bits q"
  have "(of_int (2 ^ (?bp - 1)) :: rat) \<le> of_int p" "(of_int p :: rat) < of_int (2 ^ ?bp)"
    using bits_bounds[OF p] by (simp_all only: of_int_le_iff of_int_less_iff)
  then have pb: "(2::rat) ^ (?bp - 1) \<le> of_int p" "of_int p < (2::rat) ^ ?bp"
    by simp_all
  have "(of_int (2 ^ (?bq - 1)) :: rat) \<le> of_int q" "(of_int q :: rat) < of_int (2 ^ ?bq)"
    using bits_bounds[OF q] by (simp_all only: of_int_le_iff of_int_less_iff)
  then have qb: "(2::rat) ^ (?bq - 1) \<le> of_int q" "of_int q < (2::rat) ^ ?bq"
    by simp_all
  have bp1: "1 \<le> ?bp" using p by (simp add: bits_pos)
  have bq1: "1 \<le> ?bq" using q by (simp add: bits_pos)
  let ?e0 = "int ?bp - int ?bq"
  have upper: "a < pow2 (?e0 + 1)"
  proof -
    have "of_int p / of_int q < (2::rat) ^ ?bp / 2 ^ (?bq - 1)"
      by (rule frac_less) (use p pb qb in simp_all)
    also have "(2::rat) ^ ?bp / 2 ^ (?bq - 1) = 2 powi (int ?bp - int (?bq - 1))"
      by (simp add: power_int_diff)
    also have "int ?bp - int (?bq - 1) = ?e0 + 1" using bq1 by simp
    finally show ?thesis by (simp only: pow2_powi a)
  qed
  have lower: "pow2 (?e0 - 1) < a"
  proof -
    have e: "int (?bp - 1) - int ?bq = ?e0 - 1" using bp1 by simp
    have "2 powi (int (?bp - 1) - int ?bq) = (2::rat) ^ (?bp - 1) / 2 ^ ?bq"
      by (simp add: power_int_diff)
    also have "\<dots> < of_int p / of_int q"
      by (rule frac_less2) (use q pb qb in simp_all)
    finally show ?thesis by (simp only: pow2_powi a e)
  qed
  show ?thesis
  proof (cases "pow2 ?e0 \<le> a")
    case True
    then have "ilog2 a = ?e0" by (simp add: ilog2_def pq Let_def)
    then show ?thesis using True upper by simp
  next
    case False
    then have "ilog2 a = ?e0 - 1" by (simp add: ilog2_def pq Let_def)
    then show ?thesis using False lower by simp
  qed
qed

lemma round_half_even_nearest: "\<bar>of_int (round_half_even y) - y\<bar> \<le> 1 / 2"
proof -
  have "of_int \<lfloor>y\<rfloor> \<le> y" "y < of_int \<lfloor>y\<rfloor> + 1" by linarith+
  then show ?thesis
    by (auto simp: round_half_even_def Let_def abs_le_iff)
qed

subsection \<open>Float arithmetic at the coordinates used below\<close>

lemma test_coords_values:
  "test_coords =
     [Finite (5197558109228237 / 8589934592), Finite (3388304853775155 / 17179869184)]"
  unfolding test_coords_def by code_simp

lemma test_coords_box_500:
  "float_sub (Finite (5197558109228237 / 8589934592)) (Finite 500) =
     Finite (5197558109228237 / 8589934592 - 500)"
  "float_sub (Finite (3388304853775155 / 17179869184)) (Finite 500) =
     Finite (3388304853775155 / 17179869184 - 500)"
  "float_add (Finite (5197558109228237 / 8589934592)) (Finite 500) =
     Finite (5197558109228237 / 8589934592 + 500)"
  "float_add (Finite (3388304853775155 / 17179869184)) (Finite 500) =
     Finite (3388304853775155 / 17179869184 + 500)"
  by code_simp+

lemma test_coords_box_100:
  "float_sub (Finite (5197558109228237 / 8589934592)) (Finite 100) =
     Finite (5197558109228237 / 8589934592 - 100)"
  "float_sub (Finite (3388304853775155 / 17179869184)) (Finite 100) =
     Finite (3388304853775155 / 17179869184 - 100)"
  "float_add (Finite (5197558109228237 / 8589934592)) (Finite 100) =
     Finite (5197558109228237 / 8589934592 + 100)"
  "float_add (Finite (3388304853775155 / 17179869184)) (Finite 100) =
     Finite (3388304853775155 / 17179869184 + 100)"
  by code_simp+

lemma far_and_near_floats:
  "float_literal (10 ^ 20) = Finite (10 ^ 20)"
  "float_literal (804 / 100) = Finite (1131529406376837 / 140737488355328)"
  "float_sub (Finite (10 ^ 20)) (Finite 100) = Finite (10 ^ 20)"
  "float_add (Finite (10 ^ 20)) (Finite 100) = Finite (10 ^ 20)"
  "float_sub (Finite (1131529406376837 / 140737488355328)) (Finite 100) =
     Finite (- 3235554857288991 / 35184372088832)"
  "float_add (Finite (1131529406376837 / 140737488355328)) (Finite 100) =
     Finite (3801319560477409 / 35184372088832)"
  by code_simp+

lemma map_extent_of_dicts:
  "map_of (identify_dict lid x y) ''mapExtent'' =
     Some (PBox (float_sub x (Finite 500)) (float_sub y (Finite 500))
                (float_add x (Finite 500)) (float_add y (Finite 500)))"
  "map_of (identify_simple_dict lid x y) ''mapExtent'' =
     Some (PBox (float_sub x (Finite 100)) (float_sub y (Finite 100))
                (float_add x (Finite 100)) (float_add y (Finite 100)))"
  "map_of (identify_dict lid x y) ''geometry'' = Some (PPoint x y)"
  "map_of (identify_simple_dict lid x y) ''geometry'' = Some (PPoint x y)"
  by (simp_all add: identify_dict_def identify_simple_dict_def)

text \<open>
  Claim C7, as the code has it. For every pair of floats \<open>(x, y)\<close> (the first two items
  of \<open>coords\<close>), \<open>test_layer_identify\<close> sends one request whose \<open>geometry\<close> is \<open>(x, y)\<close>
  and whose \<open>mapExtent\<close> is \<open>(x - 500, y - 500, x + 500, y + 500)\<close>, and
  \<open>test_layer_identify_simple\<close> one whose \<open>mapExtent\<close> is
  \<open>(x - 100, y - 100, x + 100, y + 100)\<close>, where \<open>-\<close> and \<open>+\<close> are the float operations
  (each result rounded to the nearest float). At the script's test coordinate the four
  operations are exact, and the box is the exact one around the point.
\<close>

theorem identify_bounding_box:
  "sent (snd (test_layer_identify srv lid (x # y # rest) s)) =
     sent s @ [identify_request lid x y] \<and>
   map_of (params (identify_request lid x y)) ''geometry'' = Some (PPoint x y) \<and>
   map_of (params (identify_request lid x y)) ''mapExtent'' =
     Some (PBox (float_sub x (Finite 500)) (float_sub y (Finite 500))
                (float_add x (Finite 500)) (float_add y (Finite 500))) \<and>
   sent (snd (test_layer_identify_simple srv lid (x # y # rest) s)) =
     sent s @ [identify_simple_request lid x y] \<and>
   map_of (params (identify_simple_request lid x y)) ''geometry'' = Some (PPoint x y) \<and>
   map_of (params (identify_simple_request lid x y)) ''mapExtent'' =
     Some (PBox (float_sub x (Finite 100)) (float_sub y (Finite 100))
                (float_add x (Finite 100)) (float_add y (Finite 100))) \<and>
   (\<exists>a b. test_coords = [Finite a, Finite b] \<and>
      map_of (params (identify_request lid (Finite a) (Finite b))) ''mapExtent'' =
        Some (PBox (Finite (a - 500)) (Finite (b - 500))
                   (Finite (a + 500)) (Finite (b + 500))) \<and>
      map_of (params (identify_simple_request lid (Finite a) (Finite b))) ''mapExtent'' =
        Some (PBox (Finite (a - 100)) (Finite (b - 100))
                   (Finite (a + 100)) (Finite (b + 100))))"
proof -
  have "test_coords =
          [Finite (5197558109228237 / 8589934592), Finite (3388304853775155 / 17179869184)] \<and>
      map_of (params (identify_request lid (Finite (5197558109228237 / 8589934592))
                        (Finite (3388304853775155 / 17179869184)))) ''mapExtent'' =
        Some (PBox (Finite (5197558109228237 / 8589934592 - 500))
                   (Finite (3388304853775155 / 17179869184 - 500))
                   (Finite (5197558109228237 / 8589934592 + 500))
                   (Finite (3388304853775155 / 17179869184 + 500))) \<and>
      map_of (params (identify_simple_request lid (Finite (5197558109228237 / 8589934592))
                        (Finite (3388304853775155 / 17179869184)))) ''mapExtent'' =
        Some (PBox (Finite (5197558109228237 / 8589934592 - 100))
                   (Finite (3388304853775155 / 17179869184 - 100))
                   (Finite (5197558109228237 / 8589934592 + 100))
                   (Finite (3388304853775155 / 17179869184 + 100)))"
    by (simp only: test_coords_values identify_request_def identify_simple_request_def
        request.simps map_extent_of_dicts test_coords_box_500 test_coords_box_100 simp_thms)
  then have "\<exists>a b. test_coords = [Finite a, Finite b] \<and>
      map_of (params (identify_request lid (Finite a) (Finite b))) ''mapExtent'' =
        Some (PBox (Finite (a - 500)) (Finite (b - 500))
                   (Finite (a + 500)) (Finite (b + 500))) \<and>
      map_of (params (identify_simple_request lid (Finite a) (Finite b))) ''mapExtent'' =
        Some (PBox (Finite (a - 100)) (Finite (b - 100))
                   (Finite (a + 100)) (Finite (b + 100)))"
    by blast
  then show ?thesis
    using emits_single[OF identify_emits] emits_single[OF simple_emits]
    by (simp only: identify_request_def identify_simple_request_def request.simps
        map_extent_of_dicts simp_thms)
qed

text \<open>
  Claim C7 as stated fails: with \<open>coords = [1e20, 8.04]\<close> the simplified probe sends a
  box whose first and third corner are both \<open>1e20\<close> (adding or subtracting \<open>100\<close> is
  lost in rounding, so the half-width is not \<open>100\<close>), and whose second and fourth
  corner, \<open>-91.96000000000001\<close> and \<open>108.03999999999999\<close>, do not have \<open>8.04\<close> as their
  midpoint.
\<close>

theorem bounding_box_lost_in_rounding:
  "sent (snd (test_layer_identify_simple (always_fails Timeout) ''ch.bfe.solar''
        [float_literal (10 ^ 20), float_literal (804 / 100)] start)) =
     [identify_simple_request ''ch.bfe.solar'' (float_literal (10 ^ 20))
        (float_literal (804 / 100))] \<and>
   map_of (params (identify_simple_request ''ch.bfe.solar'' (float_literal (10 ^ 20))
        (float_literal (804 / 100)))) ''mapExtent'' =
     Some (PBox (Finite (10 ^ 20)) (Finite (- 3235554857288991 / 35184372088832))
                (Finite (10 ^ 20)) (Finite (3801319560477409 / 35184372088832))) \<and>
   float_literal (10 ^ 20) = Finite (10 ^ 20) \<and>
   float_literal (804 / 100) = Finite (1131529406376837 / 140737488355328) \<and>
   (- 3235554857288991 / 35184372088832 + 3801319560477409 / 35184372088832) / 2 \<noteq>
     (1131529406376837 / 140737488355328 :: rat)"
proof -
  have "sent (snd (test_layer_identify_simple (always_fails Timeout) ''ch.bfe.solar''
        [float_literal (10 ^ 20), float_literal (804 / 100)] start)) =
     sent start @
     [identify_simple_request ''ch.bfe.solar'' (float_literal (10 ^ 20)) (float_literal (804 / 100))]"
    by (rule emits_single[OF simple_emits])
  moreover have "sent start = []" by (simp add: start_def)
  ultimately have sent_one:
    "sent (snd (test_layer_identify_simple (always_fails Timeout) ''ch.bfe.solar''
        [float_literal (10 ^ 20), float_literal (804 / 100)] start)) =
     [identify_simple_request ''ch.bfe.solar'' (float_literal (10 ^ 20))
        (float_literal (804 / 100))]"
    by (simp only: append_Nil)
  have box: "map_of (params (identify_simple_request ''ch.bfe.solar'' (float_literal (10 ^ 20))
        (float_literal (804 / 100)))) ''mapExtent'' =
     Some (PBox (Finite (10 ^ 20)) (Finite (- 3235554857288991 / 35184372088832))
                (Finite (10 ^ 20)) (Finite (3801319560477409 / 35184372088832)))"
    by (simp only: identify_simple_request_def request.simps map_extent_of_dicts
        far_and_near_floats)
  have off_centre:
    "(- 3235554857288991 / 35184372088832 + 3801319560477409 / 35184372088832) / 2 \<noteq>
     (1131529406376837 / 140737488355328 :: rat)"
    by simp
  show ?thesis
    using sent_one box far_and_near_floats(1,2) off_centre by (intro conjI)
qed



text \<open>
  Claim C9. \<open>run_full_investigation\<close> prints the title banner and a rule, then lists
  the layers, then tests the capabilities of the first three (at most) of the layers
  found, each with its layer-info request and possibly an identify request, then asks
  for the WMS capabilities, then probes the ten candidate names, then the four
  alternative endpoints, and ends with the three closing banner lines.
\<close>

theorem run_full_investigation_order:
  "\<exists>layers groups l1 l2 l3 l4 l5.
     fst (investigate_geoadmin_layers srv
            (s\<lparr>console := console s @ [Banner Banner_title, Banner Rule60]\<rparr>)) = Inr layers \<and>
     list_all2 (\<lambda>layer rs.
          rs = [layer_info_request (layer_id layer)] \<or>
          rs = [layer_info_request (layer_id layer),
                identify_request (layer_id layer) (test_coords ! 0) (test_coords ! 1)])
        (take 3 layers) groups \<and>
     sent (snd (run_full_investigation srv s)) =
       sent s @ [layers_request] @ concat groups @ [wms_request] @
       map (\<lambda>n. identify_simple_request n (test_coords ! 0) (test_coords ! 1)) layer_variations @
       map endpoint_request endpoints \<and>
     console (snd (run_full_investigation srv s)) =
       console s @ [Banner Banner_title, Banner Rule60] @
       Geoadmin Investigating_layers # l1 @ l2 @
       Wms Investigating_wms # l3 @
       Simple Testing_variations # l4 @
       Endpoint Testing_alternatives # l5 @
       [Banner Rule60_after_blank, Banner Investigation_complete, Banner Rule60] \<and>
     fst (run_full_investigation srv s) = Inr PyNone"
  by (rule run_full_structure)

text \<open>
  Claim C10. When a 200 response has a JSON object as body that lacks the expected key,
  the missing key counts as an empty collection: without \<open>'layers'\<close>,
  \<open>investigate_geoadmin_layers\<close> reports zero layers and returns the empty list; without
  \<open>'results'\<close>, \<open>test_layer_identify_simple\<close> reports no data and returns \<open>False\<close>,
  and \<open>test_layer_identify\<close> reports zero results and no data.
\<close>

theorem missing_key_is_empty_collection:
  assumes "status_code r = 200" and "json_body r = Inr (PyDict kvs)"
  shows "(map_of kvs ''layers'' = None \<and> srv (sent s) layers_request = Inr r \<longrightarrow>
            fst (investigate_geoadmin_layers srv s) = Inr [] \<and>
            console (snd (investigate_geoadmin_layers srv s)) =
              console s @ [Geoadmin Investigating_layers, Geoadmin (Api_accessible 0),
                           Geoadmin (Found_solar 0)]) \<and>
         (map_of kvs ''results'' = None \<and>
          srv (sent s) (identify_simple_request lid x y) = Inr r \<longrightarrow>
            fst (test_layer_identify_simple srv lid (x # y # rest) s) = Inr (PyBool False) \<and>
            console (snd (test_layer_identify_simple srv lid (x # y # rest) s)) =
              console s @ [Simple Layer_no_data]) \<and>
         (map_of kvs ''results'' = None \<and>
          srv (sent s) (identify_request lid x y) = Inr r \<longrightarrow>
            fst (test_layer_identify srv lid (x # y # rest) s) = Inr PyNone \<and>
            console (snd (test_layer_identify srv lid (x # y # rest) s)) =
              console s @ [Identify (Testing_identify (x # y # rest)),
                           Identify (Identify_successful 0), Identify No_data_found])"
  using assms
  by (simp add: investigate_geoadmin_layers_def test_layer_identify_simple_def
      test_layer_identify_def identify_simple_params_pair identify_params_pair
      identify_simple_request_def identify_request_def run_simps)

theorem missing_key_is_empty_collection_witness:
  "fst (investigate_geoadmin_layers (always_answers (mock_response 200 (Inr (PyDict []))))
          start) = Inr [] \<and>
   fst (test_layer_identify_simple (always_answers (mock_response 200 (Inr (PyDict []))))
          ''ch.bfe.solar'' test_coords start) = Inr (PyBool False) \<and>
   console (snd (test_layer_identify (always_answers (mock_response 200 (Inr (PyDict []))))
          ''ch.bfe.solar'' test_coords start)) =
     [Identify (Testing_identify test_coords), Identify (Identify_successful 0),
      Identify No_data_found]"
  using missing_key_is_empty_collection
    [of "mock_response 200 (Inr (PyDict []))" "[]"
        "always_answers (mock_response 200 (Inr (PyDict [])))" start
        "''ch.bfe.solar''" "test_coords ! 0" "test_coords ! 1" "[]"]
  by (simp add: always_answers_def mock_response_def test_coords_def start_def)

text \<open>
  Claim C6, as the code has it. When the identify request is answered with status 200
  and the body \<open>{"results": []}\<close>, neither identify probe raises:
  \<open>test_layer_identify_simple\<close> prints \<open>Layer exists but no data at coordinates\<close> and
  returns \<open>False\<close>; \<open>test_layer_identify\<close> prints \<open>Identify successful: 0 results\<close> and
  \<open>No data found at test coordinates\<close> and returns \<open>None\<close>.
\<close>

theorem empty_results_scenario:
  assumes "status_code r = 200" and "json_body r = Inr empty_results"
  shows "(srv (sent s) (identify_simple_request lid x y) = Inr r \<longrightarrow>
            fst (test_layer_identify_simple srv lid (x # y # rest) s) = Inr (PyBool False) \<and>
            console (snd (test_layer_identify_simple srv lid (x # y # rest) s)) =
              console s @ [Simple Layer_no_data]) \<and>
         (srv (sent s) (identify_request lid x y) = Inr r \<longrightarrow>
            fst (test_layer_identify srv lid (x # y # rest) s) = Inr PyNone \<and>
            console (snd (test_layer_identify srv lid (x # y # rest) s)) =
              console s @ [Identify (Testing_identify (x # y # rest)),
                           Identify (Identify_successful 0), Identify No_data_found])"
  using assms
  by (simp add: test_layer_identify_simple_def empty_results_def
      test_layer_identify_def identify_simple_params_pair identify_params_pair
      identify_simple_request_def identify_request_def run_simps)

theorem empty_results_scenario_witness:
  "fst (test_layer_identify_simple (always_answers (mock_response 200 (Inr empty_results)))
          ''ch.bfe.solar'' test_coords start) = Inr (PyBool False) \<and>
   console (snd (test_layer_identify_simple
          (always_answers (mock_response 200 (Inr empty_results)))
          ''ch.bfe.solar'' test_coords start)) = [Simple Layer_no_data] \<and>
   fst (test_layer_identify (always_answers (mock_response 200 (Inr empty_results)))
          ''ch.bfe.solar'' test_coords start) = Inr PyNone \<and>
   console (snd (test_layer_identify (always_answers (mock_response 200 (Inr empty_results)))
          ''ch.bfe.solar'' test_coords start)) =
     [Identify (Testing_identify test_coords), Identify (Identify_successful 0),
      Identify No_data_found]"
  using empty_results_scenario
    [of "mock_response 200 (Inr empty_results)"
        "always_answers (mock_response 200 (Inr empty_results))" start
        "''ch.bfe.solar''" "test_coords ! 0" "test_coords ! 1" "[]"]
  by (simp add: always_answers_def mock_response_def test_coords_def start_def)

text \<open>
  Claim C6 as stated fails: on the body \<open>{"results": []}\<close> the probe that prints
  \<open>No data found\<close>, \<open>test_layer_identify\<close>, returns \<open>None\<close> and not \<open>False\<close>, and the
  probe that returns \<open>False\<close>, \<open>test_layer_identify_simple\<close>, prints another line.
\<close>

theorem empty_results_no_probe_does_both:
  "fst (test_layer_identify (always_answers (mock_response 200 (Inr empty_results)))
          ''ch.bfe.solar'' test_coords start) \<noteq> Inr (PyBool False) \<and>
   Identify No_data_found \<notin> set (console (snd (test_layer_identify_simple
          (always_answers (mock_response 200 (Inr empty_results)))
          ''ch.bfe.solar'' test_coords start)))"
  by (simp add: test_layer_identify_simple_def empty_results_def
      test_layer_identify_def identify_simple_params_def identify_params_def coord_def
      run_simps always_answers_def mock_response_def test_coords_def start_def)

lemma simple_on_answer:
  assumes "srv (sent s) (identify_simple_request lid x y) = Inr r"
    and "status_code r = 200" and "json_body r = Inr data"
  shows "fst (test_layer_identify_simple srv lid (x # y # rest) s) =
           Inr (PyBool (\<exists>kvs first others.
              data = PyDict kvs \<and>
              map_of kvs ''results'' = Some (PyList (PyDict first # others)) \<and>
              (map_of first ''attributes'' = None \<or>
               (\<exists>attrs. map_of first ''attributes'' = Some (PyDict attrs)))))"
  using assms
  apply (simp add: test_layer_identify_simple_def identify_simple_params_pair
      identify_simple_request_def run_simps)
  apply (cases data; simp add: run_simps)
  subgoal for kvs
    apply (cases "map_of kvs ''results''"; simp add: run_simps)
    subgoal for results
      apply (cases results; simp add: run_simps)
       apply (auto simp: run_simps neq_Nil_conv)[1]
      subgoal for items
        apply (cases items; simp add: run_simps)
        subgoal for first others
          apply (cases first; simp add: run_simps)
          subgoal for fields
            apply (cases "map_of fields ''attributes''"; simp add: run_simps)
            subgoal for attrs by (cases attrs; simp add: run_simps)
            done
          done
        done
      done
    done
  done


text \<open>
  Claim C4, as the code has it. \<open>test_layer_identify_simple\<close> returns \<open>True\<close> or
  \<open>False\<close>, and \<open>True\<close> exactly when the identify request is answered with status 200
  and a JSON object whose \<open>'results'\<close> is a non-empty list whose first item is an object
  whose \<open>'attributes'\<close> is absent or an object.
\<close>

theorem simple_probe_true_iff:
  "(fst (test_layer_identify_simple srv lid (x # y # rest) s) = Inr (PyBool True)) =
     (\<exists>r kvs first others.
        srv (sent s) (identify_simple_request lid x y) = Inr r \<and>
        status_code r = 200 \<and>
        json_body r = Inr (PyDict kvs) \<and>
        map_of kvs ''results'' = Some (PyList (PyDict first # others)) \<and>
        (map_of first ''attributes'' = None \<or>
         (\<exists>attrs. map_of first ''attributes'' = Some (PyDict attrs)))) \<and>
   (fst (test_layer_identify_simple srv lid (x # y # rest) s) = Inr (PyBool True) \<or>
    fst (test_layer_identify_simple srv lid (x # y # rest) s) = Inr (PyBool False))"
proof (cases "srv (sent s) (identify_simple_request lid x y)")
  case (Inl e)
  then show ?thesis using simple_transport[where srv = srv and s = s and lid = lid and x = x and y = y and rest = rest and e = e] by simp
next
  case (Inr r)
  show ?thesis
  proof (cases "status_code r = 200")
    case False
    then show ?thesis using simple_non_200[where srv = srv and s = s and lid = lid and x = x and y = y and rest = rest and r = r] Inr by auto
  next
    case True
    show ?thesis
    proof (cases "json_body r")
      case (Inl e)
      then show ?thesis using simple_parse_failure[where srv = srv and s = s and lid = lid and x = x and y = y and rest = rest and r = r and e = e] Inr True by auto
    next
      case body: (Inr data)
      show ?thesis using simple_on_answer[where srv = srv and s = s and lid = lid and x = x and y = y and rest = rest and r = r and data = data] Inr True body by auto
    qed
  qed
qed

theorem simple_probe_true_iff_witness:
  "fst (test_layer_identify_simple (always_answers (mock_response 200 (Inr one_feature)))
          ''ch.bfe.solar'' test_coords start) = Inr (PyBool True)"
  using simple_probe_true_iff
    [of "always_answers (mock_response 200 (Inr one_feature))" "''ch.bfe.solar''"
        "test_coords ! 0" "test_coords ! 1" "[]" start]
  by (simp add: always_answers_def mock_response_def one_feature_def test_coords_def)

text \<open>
  Claim C4 as stated fails: a 200 response whose \<open>'results'\<close> list is not empty but
  whose first item has \<open>"attributes": null\<close> makes \<open>attrs.keys()\<close> raise, and the probe
  returns \<open>False\<close>.
\<close>

theorem simple_probe_false_on_nonempty_results:
  "status_code (mock_response 200 (Inr null_attributes)) = 200 \<and>
   json_body (mock_response 200 (Inr null_attributes)) =
     Inr (PyDict [(''results'', PyList [PyDict [(''attributes'', PyNone)]])]) \<and>
   fst (test_layer_identify_simple (always_answers (mock_response 200 (Inr null_attributes)))
          ''ch.bfe.solar'' test_coords start) = Inr (PyBool False)"
  by (simp add: test_layer_identify_simple_def null_attributes_def identify_simple_params_def
      coord_def run_simps always_answers_def mock_response_def test_coords_def start_def)






end
